theory Spec2Isabelle
  imports Main
begin

section \<open>Text\<close>

text \<open>
  A JavaScript string is modelled by \<^typ>\<open>string\<close>: the text as a list of 8-bit
  characters (UTF-8 for text beyond ASCII). The character classes below are the ones the
  router's regular expressions and the JSON grammar name.
\<close>

definition code :: "char \<Rightarrow> nat" where
  "code c = of_char c"

definition isDigit :: "char \<Rightarrow> bool" where
  "isDigit c = (48 \<le> code c \<and> code c \<le> 57)"

text \<open>The class \<^verbatim>\<open>[a-zA-Z0-9]\<close> of the placeholder expression.\<close>

definition isAlnum :: "char \<Rightarrow> bool" where
  "isAlnum c = ((97 \<le> code c \<and> code c \<le> 122) \<or> (65 \<le> code c \<and> code c \<le> 90) \<or> isDigit c)"

text \<open>
  \<^verbatim>\<open>String.prototype.toLowerCase\<close> on texts of ASCII characters: the letters A to Z are
  lowered and every other character is kept. The lowering of letters beyond ASCII is not
  modelled.
\<close>

definition lowerChar :: "char \<Rightarrow> char" where
  "lowerChar c =
     (case map_of (zip ''ABCDEFGHIJKLMNOPQRSTUVWXYZ'' ''abcdefghijklmnopqrstuvwxyz'') c of
        None \<Rightarrow> c
      | Some d \<Rightarrow> d)"

definition toLowerCase :: "string \<Rightarrow> string" where
  "toLowerCase s = map lowerChar s"

text \<open>\<^verbatim>\<open>Array.prototype.join\<close>.\<close>

fun join :: "string \<Rightarrow> string list \<Rightarrow> string" where
  "join sep [] = []"
| "join sep [x] = x"
| "join sep (x # y # ys) = x @ sep @ join sep (y # ys)"

text \<open>Reading an array element: \<^verbatim>\<open>undefined\<close> (here \<open>None\<close>) out of range.\<close>

definition at :: "'a list \<Rightarrow> nat \<Rightarrow> 'a option" where
  "at xs i = (if i < length xs then Some (xs ! i) else None)"

section \<open>JSON\<close>

text \<open>
  The values \<^verbatim>\<open>JSON.parse\<close> builds and \<^verbatim>\<open>JSON.stringify\<close> prints. A number is
  carried by its decimal text (its floating-point value is not computed); an object is the
  list of its properties in insertion order, each key once.
\<close>

datatype json =
    JNull
  | JBool bool
  | JNum string
  | JStr string
  | JArr "json list"
  | JObj "(string \<times> json) list"

subsection \<open>\<^verbatim>\<open>JSON.stringify\<close>\<close>

definition hexDigit :: "nat \<Rightarrow> char" where
  "hexDigit n = ''0123456789abcdef'' ! (n mod 16)"

text \<open>
  One character of a quoted string: the quote, the backslash and the control characters are
  escaped, everything else is copied.
\<close>

definition quoteChar :: "char \<Rightarrow> string" where
  "quoteChar c =
     (if c = CHR 0x22 then [CHR 0x5C, CHR 0x22]
      else if c = CHR 0x5C then [CHR 0x5C, CHR 0x5C]
      else if c = CHR 0x08 then [CHR 0x5C, CHR ''b'']
      else if c = CHR 0x0C then [CHR 0x5C, CHR ''f'']
      else if c = CHR 0x0A then [CHR 0x5C, CHR ''n'']
      else if c = CHR 0x0D then [CHR 0x5C, CHR ''r'']
      else if c = CHR 0x09 then [CHR 0x5C, CHR ''t'']
      else if code c < 32
        then [CHR 0x5C, CHR ''u'', CHR ''0'', CHR ''0'', hexDigit (code c div 16), hexDigit (code c mod 16)]
      else [c])"

definition quoteJSON :: "string \<Rightarrow> string" where
  "quoteJSON s = [CHR 0x22] @ concat (map quoteChar s) @ [CHR 0x22]"

fun stringify :: "json \<Rightarrow> string" where
  "stringify JNull = ''null''"
| "stringify (JBool b) = (if b then ''true'' else ''false'')"
| "stringify (JNum n) = n"
| "stringify (JStr s) = quoteJSON s"
| "stringify (JArr xs) = ''['' @ join '','' (map stringify xs) @ '']''"
| "stringify (JObj fs) =
     ''{'' @ join '','' (map (\<lambda>kv. quoteJSON (fst kv) @ '':'' @ stringify (snd kv)) fs) @ ''}''"

subsection \<open>\<^verbatim>\<open>JSON.parse\<close>: tokens\<close>

text \<open>
  The JSON grammar (ECMA-404) in two passes: the text is cut into tokens, then the tokens
  are read by a stack machine. A text outside the grammar has no value (\<open>None\<close>): there
  \<^verbatim>\<open>JSON.parse\<close> throws a \<^verbatim>\<open>SyntaxError\<close>.
\<close>

datatype tok =
    TLBrace | TRBrace | TLBrack | TRBrack | TColon | TComma
  | TString string | TNumber string | TTrue | TFalse | TNull

definition isWs :: "char \<Rightarrow> bool" where
  "isWs c = (c = CHR 0x20 \<or> c = CHR 0x09 \<or> c = CHR 0x0A \<or> c = CHR 0x0D)"

definition hexVal :: "char \<Rightarrow> nat option" where
  "hexVal c =
     (if isDigit c then Some (code c - 48)
      else if 97 \<le> code c \<and> code c \<le> 102 then Some (code c - 87)
      else if 65 \<le> code c \<and> code c \<le> 70 then Some (code c - 55)
      else None)"

definition hex4 :: "string \<Rightarrow> nat option" where
  "hex4 s =
     (case map hexVal s of
        [Some a, Some b, Some c, Some d] \<Rightarrow> Some (((a * 16 + b) * 16 + c) * 16 + d)
      | _ \<Rightarrow> None)"

text \<open>
  The code unit of a \<^verbatim>\<open>\uXXXX\<close> escape, written as the bytes of its UTF-8 form (each
  escape on its own, so the two halves of a surrogate pair give three bytes each).
\<close>

definition utf8 :: "nat \<Rightarrow> string" where
  "utf8 n =
     (if n < 128 then [char_of n]
      else if n < 2048 then [char_of (192 + n div 64), char_of (128 + n mod 64)]
      else [char_of (224 + n div 4096), char_of (128 + n div 64 mod 64), char_of (128 + n mod 64)])"

definition simpleEscape :: "char \<Rightarrow> char option" where
  "simpleEscape e =
     (if e = CHR 0x22 \<or> e = CHR 0x5C \<or> e = CHR ''/'' then Some e
      else if e = CHR ''b'' then Some (CHR 0x08)
      else if e = CHR ''f'' then Some (CHR 0x0C)
      else if e = CHR ''n'' then Some (CHR 0x0A)
      else if e = CHR ''r'' then Some (CHR 0x0D)
      else if e = CHR ''t'' then Some (CHR 0x09)
      else None)"

text \<open>
  The rest of a string token, after its opening quote: the decoded characters and the text
  that follows the closing quote.
\<close>

fun lexString :: "string \<Rightarrow> (string \<times> string) option" where
  "lexString [] = None"
| "lexString (c # cs) =
     (if c = CHR 0x22 then Some ([], cs)
      else if c = CHR 0x5C then
        (case cs of
           [] \<Rightarrow> None
         | e # es \<Rightarrow>
             if e = CHR ''u'' then
               (case hex4 (take 4 es) of
                  None \<Rightarrow> None
                | Some n \<Rightarrow> map_option (\<lambda>vr. (utf8 n @ fst vr, snd vr)) (lexString (drop 4 es)))
             else
               (case simpleEscape e of
                  None \<Rightarrow> None
                | Some d \<Rightarrow> map_option (\<lambda>vr. (d # fst vr, snd vr)) (lexString es)))
      else if code c < 32 then None
      else map_option (\<lambda>vr. (c # fst vr, snd vr)) (lexString cs))"

text \<open>
  A number token: an optional minus, an integer part without a leading zero, an optional
  fraction and an optional exponent. Each part gives its text and what follows it.
\<close>

definition intPart :: "string \<Rightarrow> (string \<times> string) option" where
  "intPart s =
     (case s of
        [] \<Rightarrow> None
      | c # cs \<Rightarrow>
          if c = CHR ''0'' then Some ([c], cs)
          else if isDigit c then Some (takeWhile isDigit s, dropWhile isDigit s)
          else None)"

definition fracPart :: "string \<Rightarrow> (string \<times> string) option" where
  "fracPart s =
     (case s of
        [] \<Rightarrow> Some ([], [])
      | c # cs \<Rightarrow>
          if c = CHR ''.'' then
            (if cs \<noteq> [] \<and> isDigit (hd cs)
             then Some (c # takeWhile isDigit cs, dropWhile isDigit cs) else None)
          else Some ([], s))"

definition expPart :: "string \<Rightarrow> (string \<times> string) option" where
  "expPart s =
     (case s of
        [] \<Rightarrow> Some ([], [])
      | c # cs \<Rightarrow>
          if c = CHR ''e'' \<or> c = CHR ''E'' then
            (let sg = (if cs \<noteq> [] \<and> (hd cs = CHR ''+'' \<or> hd cs = CHR ''-'') then [hd cs] else []);
                 ds = drop (length sg) cs
             in if ds \<noteq> [] \<and> isDigit (hd ds)
                then Some (c # sg @ takeWhile isDigit ds, dropWhile isDigit ds) else None)
          else Some ([], s))"

definition lexNumber :: "string \<Rightarrow> (string \<times> string) option" where
  "lexNumber s =
     (let sg = (if s \<noteq> [] \<and> hd s = CHR ''-'' then [hd s] else []) in
      case intPart (drop (length sg) s) of
        None \<Rightarrow> None
      | Some (i, s2) \<Rightarrow>
          (case fracPart s2 of
             None \<Rightarrow> None
           | Some (f, s3) \<Rightarrow>
               (case expPart s3 of
                  None \<Rightarrow> None
                | Some (e, s4) \<Rightarrow> Some (sg @ i @ f @ e, s4))))"

text \<open>The token at the head of a text that does not start with white space.\<close>

definition nextTok :: "string \<Rightarrow> (tok \<times> string) option" where
  "nextTok s =
     (case s of
        [] \<Rightarrow> None
      | c # cs \<Rightarrow>
          if c = CHR ''{'' then Some (TLBrace, cs)
          else if c = CHR ''}'' then Some (TRBrace, cs)
          else if c = CHR ''['' then Some (TLBrack, cs)
          else if c = CHR '']'' then Some (TRBrack, cs)
          else if c = CHR '':'' then Some (TColon, cs)
          else if c = CHR '','' then Some (TComma, cs)
          else if c = CHR 0x22 then map_option (\<lambda>vr. (TString (fst vr), snd vr)) (lexString cs)
          else if c = CHR ''-'' \<or> isDigit c
            then map_option (\<lambda>vr. (TNumber (fst vr), snd vr)) (lexNumber s)
          else if take 4 s = ''true'' then Some (TTrue, drop 4 s)
          else if take 5 s = ''false'' then Some (TFalse, drop 5 s)
          else if take 4 s = ''null'' then Some (TNull, drop 4 s)
          else None)"

function lexJSON :: "string \<Rightarrow> tok list option" where
  "lexJSON s =
     (case dropWhile isWs s of
        [] \<Rightarrow> Some []
      | c # cs \<Rightarrow>
          (case nextTok (c # cs) of
             None \<Rightarrow> None
           | Some tr \<Rightarrow> map_option ((#) (fst tr)) (lexJSON (snd tr))))"
  by pat_completeness auto
termination
proof (relation "measure length", goal_cases)
  case 1
  show ?case by simp
next
  case (2 s c cs tr)
  have str: "lexString u = Some (v, r) \<Longrightarrow> length r \<le> length u" for u v r
    by (induction u arbitrary: v r rule: lexString.induct)
       (fastforce split: if_splits list.splits option.splits)+
  have dw: "length (dropWhile P u) \<le> length u" for P and u :: string
    by (rule length_dropWhile_le)
  have ip: "intPart u = Some (v, r) \<Longrightarrow> length r < length u" for u v r
    using dw [of isDigit "tl u"] by (auto simp: intPart_def split: list.splits if_splits)
  have fp: "fracPart u = Some (v, r) \<Longrightarrow> length r \<le> length u" for u v r
    using dw [of isDigit "tl u"] by (auto simp: fracPart_def split: list.splits if_splits)
  have ep: "expPart u = Some (v, r) \<Longrightarrow> length r \<le> length u" for u v r
    using dw [of isDigit "tl u"] dw [of isDigit "tl (tl u)"]
    by (auto simp: expPart_def Let_def drop_Suc split: list.splits if_splits)
  have num: "lexNumber u = Some (v, r) \<Longrightarrow> length r < length u" for u v r
  proof -
    assume a: "lexNumber u = Some (v, r)"
    define u1 where "u1 = drop (length (if u \<noteq> [] \<and> hd u = CHR ''-'' then [hd u] else [])) u"
    from a obtain i s2 f s3 e where
      1: "intPart u1 = Some (i, s2)" and 2: "fracPart s2 = Some (f, s3)"
      and 3: "expPart s3 = Some (e, r)"
      by (auto simp: lexNumber_def Let_def u1_def split: option.splits)
    have "length u1 \<le> length u" by (simp add: u1_def)
    with ip [OF 1] fp [OF 2] ep [OF 3] show ?thesis by linarith
  qed
  have ifE: "(if b then x else y) = Some z \<Longrightarrow> (x = Some z \<Longrightarrow> Q)
      \<Longrightarrow> (y = Some z \<Longrightarrow> Q) \<Longrightarrow> Q" for b x y Q and z :: "tok \<times> string"
    by (simp split: if_splits)
  have nt: "length r < length u" if a: "nextTok u = Some (t, r)" for u t r
  proof (cases u)
    case Nil
    with a show ?thesis by (simp add: nextTok_def)
  next
    case (Cons d ds)
    have "r = ds \<or> (\<exists>v. lexString ds = Some (v, r)) \<or> (\<exists>v. lexNumber u = Some (v, r))
          \<or> r = drop 3 ds \<or> r = drop 4 ds"
      using a unfolding nextTok_def Cons list.case
      by (elim ifE) auto
    then show ?thesis
      using str [of ds _ r] num [of u _ r] Cons by auto
  qed
  have tok: "length (snd tr) < length (c # cs)"
    using 2(2) nt [of "c # cs" "fst tr" "snd tr"] by simp
  have "length (c # cs) \<le> length s"
    using dw [of isWs s] 2(1) by simp
  with tok show ?case by simp
qed

subsection \<open>\<^verbatim>\<open>JSON.parse\<close>: values\<close>

text \<open>
  The stack machine. A frame is an array or an object under construction (an object with
  the key that waits for its value); the mode says which token may come next.
\<close>

datatype frame = FArr "json list" | FObj "(string \<times> json) list" "string option"

datatype mode =
    WantValue | WantValueOrClose | WantKeyOrClose | WantKey | WantColon | WantCommaOrClose

datatype pstate = Reading mode "frame list" | Finished json | Failed

text \<open>\<^verbatim>\<open>obj[k] = v\<close>: a key already present keeps its place and takes the new value.\<close>

fun setProp :: "(string \<times> json) list \<Rightarrow> string \<Rightarrow> json \<Rightarrow> (string \<times> json) list" where
  "setProp [] k v = [(k, v)]"
| "setProp (f # fs) k v = (if fst f = k then (k, v) # fs else f # setProp fs k v)"

text \<open>A complete value goes to the container on top of the stack, or is the result.\<close>

fun deliver :: "json \<Rightarrow> frame list \<Rightarrow> pstate" where
  "deliver v [] = Finished v"
| "deliver v (FArr es # st) = Reading WantCommaOrClose (FArr (es @ [v]) # st)"
| "deliver v (FObj fs (Some k) # st) = Reading WantCommaOrClose (FObj (setProp fs k v) None # st)"
| "deliver v (FObj fs None # st) = Failed"

fun startValue :: "tok \<Rightarrow> frame list \<Rightarrow> pstate" where
  "startValue (TString s) st = deliver (JStr s) st"
| "startValue (TNumber n) st = deliver (JNum n) st"
| "startValue TTrue st = deliver (JBool True) st"
| "startValue TFalse st = deliver (JBool False) st"
| "startValue TNull st = deliver JNull st"
| "startValue TLBrack st = Reading WantValueOrClose (FArr [] # st)"
| "startValue TLBrace st = Reading WantKeyOrClose (FObj [] None # st)"
| "startValue _ st = Failed"

fun closeArr :: "frame list \<Rightarrow> pstate" where
  "closeArr (FArr es # st) = deliver (JArr es) st"
| "closeArr _ = Failed"

fun closeObj :: "frame list \<Rightarrow> pstate" where
  "closeObj (FObj fs None # st) = deliver (JObj fs) st"
| "closeObj _ = Failed"

fun takeKey :: "tok \<Rightarrow> frame list \<Rightarrow> pstate" where
  "takeKey (TString k) (FObj fs None # st) = Reading WantColon (FObj fs (Some k) # st)"
| "takeKey _ _ = Failed"

fun afterComma :: "frame list \<Rightarrow> pstate" where
  "afterComma (FArr es # st) = Reading WantValue (FArr es # st)"
| "afterComma (FObj fs None # st) = Reading WantKey (FObj fs None # st)"
| "afterComma _ = Failed"

fun pstep :: "pstate \<Rightarrow> tok \<Rightarrow> pstate" where
  "pstep (Reading WantValue st) t = startValue t st"
| "pstep (Reading WantValueOrClose st) t = (if t = TRBrack then closeArr st else startValue t st)"
| "pstep (Reading WantKeyOrClose st) t = (if t = TRBrace then closeObj st else takeKey t st)"
| "pstep (Reading WantKey st) t = takeKey t st"
| "pstep (Reading WantColon st) t = (if t = TColon then Reading WantValue st else Failed)"
| "pstep (Reading WantCommaOrClose st) t =
     (if t = TComma then afterComma st
      else if t = TRBrack then closeArr st
      else if t = TRBrace then closeObj st
      else Failed)"
| "pstep (Finished v) t = Failed"
| "pstep Failed t = Failed"

definition JSON_parse :: "string \<Rightarrow> json option" where
  "JSON_parse text =
     (case lexJSON text of
        None \<Rightarrow> None
      | Some ts \<Rightarrow> (case foldl pstep (Reading WantValue []) ts of Finished v \<Rightarrow> Some v | _ \<Rightarrow> None))"

section \<open>Responses\<close>

text \<open>
  A response: the handlers return one whose body is an object with a message and optional
  data; the router returns one whose body is serialized text.
\<close>

record 'b Response =
  statusCode :: int
  body :: 'b

record Body =
  message :: string
  data :: "json option"

section \<open>Errors and their translation (\<^verbatim>\<open>error_handler.ts\<close>)\<close>

text \<open>
  A thrown value is either an instance of one of the library's classes, which all extend
  \<^verbatim>\<open>CustomError\<close> and carry a name, a status code and a message, or some other
  \<^verbatim>\<open>Error\<close> with a name and a message (a \<^verbatim>\<open>SyntaxError\<close> of the JSON parser, a
  \<^verbatim>\<open>TypeError\<close>, whatever a callback throws).
\<close>

datatype error =
    CustomError string int string
  | NativeError string string

fun name :: "error \<Rightarrow> string" where
  "name (CustomError n sc m) = n"
| "name (NativeError n m) = n"

fun message :: "error \<Rightarrow> string" where
  "message (CustomError n sc m) = m"
| "message (NativeError n m) = m"

text \<open>\<^verbatim>\<open>message ?? fallback\<close> of the constructors.\<close>

definition orElse :: "string option \<Rightarrow> string \<Rightarrow> string" where
  "orElse m fallback = (case m of None \<Rightarrow> fallback | Some t \<Rightarrow> t)"

text \<open>The fixed messages are Korean text, given here by their UTF-8 bytes.\<close>

definition UndefinedPathError :: error where
  "UndefinedPathError = CustomError ''UndefinedPathError'' 404
     [CHR 0xEC, CHR 0xA0, CHR 0x95, CHR 0xEC, CHR 0x9D, CHR 0x98, CHR 0xEB, CHR 0x90, CHR 0x98,
      CHR 0xEC, CHR 0xA7, CHR 0x80, CHR 0x20, CHR 0xEC, CHR 0x95, CHR 0x8A, CHR 0xEC, CHR 0x9D,
      CHR 0x80, CHR 0x20, CHR 0xEA, CHR 0xB2, CHR 0xBD, CHR 0xEB, CHR 0xA1, CHR 0x9C, CHR 0xEC,
      CHR 0x9E, CHR 0x85, CHR 0xEB, CHR 0x8B, CHR 0x88, CHR 0xEB, CHR 0x8B, CHR 0xA4, CHR 0x2E]"

definition UnauthorizedError :: "string option \<Rightarrow> error" where
  "UnauthorizedError m = CustomError ''UnauthorizedError'' 401 (orElse m
     [CHR 0xEC, CHR 0x9D, CHR 0xB8, CHR 0xEC, CHR 0xA6, CHR 0x9D, CHR 0xEB, CHR 0x90, CHR 0x98,
      CHR 0xEC, CHR 0xA7, CHR 0x80, CHR 0x20, CHR 0xEC, CHR 0x95, CHR 0x8A, CHR 0xEC, CHR 0x9D,
      CHR 0x80, CHR 0x20, CHR 0xEC, CHR 0x82, CHR 0xAC, CHR 0xEC, CHR 0x9A, CHR 0xA9, CHR 0xEC,
      CHR 0x9E, CHR 0x90, CHR 0xEC, CHR 0x9E, CHR 0x85, CHR 0xEB, CHR 0x8B, CHR 0x88, CHR 0xEB,
      CHR 0x8B, CHR 0xA4, CHR 0x2E])"

definition ForbiddenError :: "string option \<Rightarrow> error" where
  "ForbiddenError m = CustomError ''ForbiddenError'' 403 (orElse m
     [CHR 0xEA, CHR 0xB6, CHR 0x8C, CHR 0xED, CHR 0x95, CHR 0x9C, CHR 0xEC, CHR 0x9D, CHR 0xB4,
      CHR 0x20, CHR 0xEC, CHR 0x97, CHR 0x86, CHR 0xEC, CHR 0x8A, CHR 0xB5, CHR 0xEB, CHR 0x8B,
      CHR 0x88, CHR 0xEB, CHR 0x8B, CHR 0xA4, CHR 0x2E])"

definition BadRequestError :: "string option \<Rightarrow> error" where
  "BadRequestError m = CustomError ''BadRequestError'' 400 (orElse m
     [CHR 0xEC, CHR 0x9E, CHR 0x98, CHR 0xEB, CHR 0xAA, CHR 0xBB, CHR 0xEB, CHR 0x90, CHR 0x9C,
      CHR 0x20, CHR 0xEC, CHR 0x9A, CHR 0x94, CHR 0xEC, CHR 0xB2, CHR 0xAD, CHR 0xEC, CHR 0x9E,
      CHR 0x85, CHR 0xEB, CHR 0x8B, CHR 0x88, CHR 0xEB, CHR 0x8B, CHR 0xA4, CHR 0x2E])"

definition InternalServerError :: "string option \<Rightarrow> error" where
  "InternalServerError m = CustomError ''InternalServerError'' 500 (orElse m
     [CHR 0xEC, CHR 0x84, CHR 0x9C, CHR 0xEB, CHR 0xB2, CHR 0x84, CHR 0x20, CHR 0xEC, CHR 0x97,
      CHR 0x90, CHR 0xEB, CHR 0x9F, CHR 0xAC, CHR 0xEC, CHR 0x9E, CHR 0x85, CHR 0xEB, CHR 0x8B,
      CHR 0x88, CHR 0xEB, CHR 0x8B, CHR 0xA4, CHR 0x2E])"

definition DatabaseError :: "string option \<Rightarrow> error" where
  "DatabaseError m = CustomError ''DatabaseError'' 500 (orElse m
     [CHR 0xEB, CHR 0x8D, CHR 0xB0, CHR 0xEC, CHR 0x9D, CHR 0xB4, CHR 0xED, CHR 0x84, CHR 0xB0,
      CHR 0xEB, CHR 0xB2, CHR 0xA0, CHR 0xEC, CHR 0x9D, CHR 0xB4, CHR 0xEC, CHR 0x8A, CHR 0xA4,
      CHR 0x20, CHR 0xEC, CHR 0x97, CHR 0x90, CHR 0xEB, CHR 0x9F, CHR 0xAC, CHR 0xEC, CHR 0x9E,
      CHR 0x85, CHR 0xEB, CHR 0x8B, CHR 0x88, CHR 0xEB, CHR 0x8B, CHR 0xA4, CHR 0x2E])"

definition NotFoundError :: "string option \<Rightarrow> error" where
  "NotFoundError m = CustomError ''NotFoundError'' 404 (orElse m
     [CHR 0xEB, CHR 0x8D, CHR 0xB0, CHR 0xEC, CHR 0x9D, CHR 0xB4, CHR 0xED, CHR 0x84, CHR 0xB0,
      CHR 0xEA, CHR 0xB0, CHR 0x80, CHR 0x20, CHR 0xEC, CHR 0x97, CHR 0x86, CHR 0xEC, CHR 0x8A,
      CHR 0xB5, CHR 0xEB, CHR 0x8B, CHR 0x88, CHR 0xEB, CHR 0x8B, CHR 0xA4, CHR 0x2E])"

definition ConflictError :: "string option \<Rightarrow> error" where
  "ConflictError m = CustomError ''ConflictError'' 409 (orElse m
     [CHR 0xEC, CHR 0xA4, CHR 0x91, CHR 0xEB, CHR 0xB3, CHR 0xB5, CHR 0xEB, CHR 0x90, CHR 0x9C,
      CHR 0x20, CHR 0xEB, CHR 0x8D, CHR 0xB0, CHR 0xEC, CHR 0x9D, CHR 0xB4, CHR 0xED, CHR 0x84,
      CHR 0xB0, CHR 0xEA, CHR 0xB0, CHR 0x80, CHR 0x20, CHR 0xEC, CHR 0x9E, CHR 0x88, CHR 0xEC,
      CHR 0x8A, CHR 0xB5, CHR 0xEB, CHR 0x8B, CHR 0x88, CHR 0xEB, CHR 0x8B, CHR 0xA4, CHR 0x2E])"

definition ValidationError :: "string option \<Rightarrow> error" where
  "ValidationError m = CustomError ''ValidationError'' 400 (orElse m
     [CHR 0xEC, CHR 0x9C, CHR 0xA0, CHR 0xED, CHR 0x9A, CHR 0xA8, CHR 0xEC, CHR 0x84, CHR 0xB1,
      CHR 0x20, CHR 0xEA, CHR 0xB2, CHR 0x80, CHR 0xEC, CHR 0x82, CHR 0xAC, CHR 0x20, CHR 0xEC,
      CHR 0x97, CHR 0x90, CHR 0xEB, CHR 0x9F, CHR 0xAC, CHR 0xEC, CHR 0x9E, CHR 0x85, CHR 0xEB,
      CHR 0x8B, CHR 0x88, CHR 0xEB, CHR 0x8B, CHR 0xA4, CHR 0x2E])"

text \<open>
  The errors the JavaScript engine itself throws in the router. Their message is the
  engine's wording, which the model does not reproduce: a fixed text stands for it.
\<close>

definition SyntaxError :: error where
  "SyntaxError = NativeError ''SyntaxError'' ''Unexpected token in JSON''"

definition TypeError :: error where
  "TypeError = NativeError ''TypeError'' ''Cannot read properties of null or undefined''"

text \<open>
  \<^verbatim>\<open>errorHandler\<close>: the status code of a \<^verbatim>\<open>CustomError\<close>, 500 for anything else; the
  body names the message (a default when it is empty) and the error. Its writing to the
  console is not part of the model, so the request it is given plays no role.
\<close>

definition errorHandler :: "error \<Rightarrow> string Response" where
  "errorHandler error =
     \<lparr>statusCode = (case error of CustomError n sc m \<Rightarrow> sc | NativeError n m \<Rightarrow> 500),
      body = stringify (JObj
        [(''message'', JStr (if message error = [] then ''Internal Server Error'' else message error)),
         (''error'', JStr (name error))])\<rparr>"

section \<open>Requests, callbacks and handlers\<close>

text \<open>
  The fields of the API Gateway event that the router and its callbacks read. A container
  that may be \<^verbatim>\<open>null\<close> is an option of a map from keys to values; the body is \<^verbatim>\<open>null\<close> or
  text. The Lambda context is passed to every callback untouched and is left out: a callback
  is modelled as already given it.
\<close>

type_synonym dict = "string \<rightharpoonup> string"

record APIGatewayEvent =
  httpMethod :: string
  path :: string
  body :: "string option"
  headers :: "dict option"
  queryStringParameters :: "dict option"
  pathParameters :: "dict option"

text \<open>
  A callback is awaited before the next step, may change the event it is given, and may
  throw: it maps the event to what it returned or threw and to the event it leaves. A
  middleware returns nothing (\<open>None\<close>) or throws (\<open>Some\<close>); a guard returns a truth value
  or throws (\<open>Inl\<close>).
\<close>

type_synonym Middleware = "APIGatewayEvent \<Rightarrow> error option \<times> APIGatewayEvent"

type_synonym Guard = "APIGatewayEvent \<Rightarrow> (error + bool) \<times> APIGatewayEvent"

text \<open>The values bound to the arguments of a handler.\<close>

datatype arg = Undefined | Null | Str string | Dict dict | Json json

text \<open>
  One entry of the \<^verbatim>\<open>parameters\<close> metadata that the decorators \<^verbatim>\<open>Body\<close>, \<^verbatim>\<open>Query\<close>,
  \<^verbatim>\<open>Params\<close> and \<^verbatim>\<open>Headers\<close> attach to a method.
\<close>

record ParamMeta =
  index :: nat
  type :: string
  param :: "string option"

text \<open>
  A handler: the function a route stores, together with what the lookup of the
  \<^verbatim>\<open>parameters\<close> metadata in \<^verbatim>\<open>invokeHandler\<close> gives for it (empty when there is none). The
  call receives the arguments only; the event is there because an argument may be one of
  the event's own containers, through which the handler can change the event.
\<close>

record Handler =
  parameters :: "ParamMeta list"
  call :: "arg list \<Rightarrow> APIGatewayEvent \<Rightarrow> (error + Body Response) \<times> APIGatewayEvent"

section \<open>The path matcher\<close>

subsection \<open>Placeholders\<close>

text \<open>
  \<^verbatim>\<open>path.replace(/:([a-zA-Z0-9]+)/g, '([^/]+)')\<close>: every colon followed by at least one
  letter or digit is replaced, with the whole run of letters and digits, by the group text.
\<close>

function replacePlaceholders :: "string \<Rightarrow> string" where
  "replacePlaceholders [] = []"
| "replacePlaceholders (c # cs) =
     (if c = CHR '':'' \<and> cs \<noteq> [] \<and> isAlnum (hd cs)
      then ''([^/]+)'' @ replacePlaceholders (dropWhile isAlnum cs)
      else c # replacePlaceholders cs)"
  by pat_completeness auto
termination
  by (relation "measure length") (auto simp: less_Suc_eq_le length_dropWhile_le)

text \<open>
  \<^verbatim>\<open>text.match(/:([a-zA-Z0-9]+)/g) || []\<close>: the list of all such occurrences, each with its
  colon.
\<close>

function matchKeys :: "string \<Rightarrow> string list" where
  "matchKeys [] = []"
| "matchKeys (c # cs) =
     (if c = CHR '':'' \<and> cs \<noteq> [] \<and> isAlnum (hd cs)
      then (c # takeWhile isAlnum cs) # matchKeys (dropWhile isAlnum cs)
      else matchKeys cs)"
  by pat_completeness auto
termination
  by (relation "measure length") (auto simp: less_Suc_eq_le length_dropWhile_le)

subsection \<open>Regular expressions\<close>

text \<open>
  The regular-expression engine belongs to the platform, and the model takes it as the
  router uses it. \<^verbatim>\<open>new RegExp(source)\<close> throws a \<^verbatim>\<open>SyntaxError\<close> or gives an object;
  \<^verbatim>\<open>text.match(object)\<close>, for an object without the global flag, is \<^verbatim>\<open>null\<close> or the array
  of the matched text and the text of each group. So a \<^verbatim>\<open>RegExp\<close> object is given by its
  source and by its answers to \<^verbatim>\<open>match\<close>, and an engine says for each source whether there
  is an object and what it answers.
\<close>

datatype RegExp = RegExp string "string \<Rightarrow> string list option"

fun source :: "RegExp \<Rightarrow> string" where
  "source (RegExp s answers) = s"

fun match :: "string \<Rightarrow> RegExp \<Rightarrow> string list option" where
  "match text (RegExp s answers) = answers text"

type_synonym engine = "string \<Rightarrow> (string \<Rightarrow> string list option) option"

definition newRegExp :: "engine \<Rightarrow> string \<Rightarrow> error + RegExp" where
  "newRegExp engine s =
     (case engine s of
        None \<Rightarrow> Inl (NativeError ''SyntaxError'' ''Invalid regular expression'')
      | Some answers \<Rightarrow> Inr (RegExp s answers))"

definition convertToRegExp :: "engine \<Rightarrow> string \<Rightarrow> error + RegExp" where
  "convertToRegExp engine p = newRegExp engine (''^'' @ replacePlaceholders p @ ''$'')"

text \<open>
  \<^verbatim>\<open>pattern.toString()\<close> is the source between two slashes, escaped as the engine of Node.js
  does it: a slash outside a character class gets a backslash, a line terminator is written
  as its escape, and a backslash keeps the character after it.
\<close>

definition isLineTerminator :: "char \<Rightarrow> bool" where
  "isLineTerminator c = (c = CHR 0x0A \<or> c = CHR 0x0D)"

fun escapeSource :: "bool \<Rightarrow> string \<Rightarrow> string" where
  "escapeSource inClass [] = []"
| "escapeSource inClass [c] =
     (if isLineTerminator c then [CHR 0x5C, if c = CHR 0x0A then CHR ''n'' else CHR ''r'']
      else if c = CHR ''/'' \<and> \<not> inClass then [CHR 0x5C, c]
      else [c])"
| "escapeSource inClass (c # d # ds) =
     (if c = CHR 0x5C then
        (if isLineTerminator d then escapeSource inClass (d # ds)
         else c # d # escapeSource inClass ds)
      else if isLineTerminator c
        then [CHR 0x5C, if c = CHR 0x0A then CHR ''n'' else CHR ''r''] @ escapeSource inClass (d # ds)
      else if c = CHR ''/'' \<and> \<not> inClass then [CHR 0x5C, c] @ escapeSource inClass (d # ds)
      else if c = CHR ''['' then c # escapeSource True (d # ds)
      else if c = CHR '']'' then c # escapeSource False (d # ds)
      else c # escapeSource inClass (d # ds))"

definition toString :: "RegExp \<Rightarrow> string" where
  "toString re = ''/'' @ escapeSource False (source re) @ ''/''"

text \<open>
  \<^verbatim>\<open>extractParams\<close>: the keys are looked for in the text of the compiled pattern; the key
  at position \<open>index\<close>, without its colon, is set to element \<open>index + 1\<close> of the match
  (\<^verbatim>\<open>undefined\<close> when the match has no such element).
\<close>

definition extractParams :: "RegExp \<Rightarrow> string list \<Rightarrow> dict" where
  "extractParams pattern m =
     (let keys = matchKeys (toString pattern) in
      foldl (\<lambda>params ik. params(drop 1 (snd ik) := at m (fst ik + 1))) Map.empty (enumerate 0 keys))"

section \<open>The router\<close>

text \<open>
  The two kinds of route. The field \<^verbatim>\<open>method\<close> of the source is \<open>routeMethod\<close> here, and
  the fields the two records share are told apart by the name of the record.
\<close>

record StaticRoute =
  routeMethod :: string
  path :: string
  handler :: Handler
  guards :: "Guard list"

record DynamicRoute =
  routeMethod :: string
  path :: RegExp
  handler :: Handler
  guards :: "Guard list"

record Router =
  staticRoutes :: "StaticRoute list"
  dynamicRoutes :: "DynamicRoute list"
  middlewares :: "Middleware list"
  logger :: "Middleware option"

definition createRouter :: Router where
  "createRouter = \<lparr>staticRoutes = [], dynamicRoutes = [], middlewares = [], logger = None\<rparr>"

definition useLogger :: "Middleware \<Rightarrow> Router \<Rightarrow> Router" where
  "useLogger l router = router\<lparr>logger := Some l\<rparr>"

definition use :: "Middleware \<Rightarrow> Router \<Rightarrow> Router" where
  "use middleware router = router\<lparr>middlewares := middlewares router @ [middleware]\<rparr>"

subsection \<open>Registration\<close>

text \<open>
  A controller class as \<^verbatim>\<open>addRoute\<close> reads it: the path that the lookup on the class
  gives, and the own properties of its prototype in order. For each property, the lookups
  on the class under its name give the method and the path (\<open>None\<close> when there is no such
  metadata on the class) and the guards (empty when there are none), and
  \<^verbatim>\<open>instance[methodName].bind(instance)\<close> gives the handler.
\<close>

record Member =
  propertyName :: string
  route :: "(string \<times> string) option"
  memberGuards :: "Guard list"
  bound :: Handler

record Controller =
  controllerPath :: string
  members :: "Member list"

text \<open>
  The body of the \<^verbatim>\<open>forEach\<close>. Without route metadata the path is \<^verbatim>\<open>undefined\<close> and
  \<^verbatim>\<open>path.includes\<close> throws; a pattern that the engine refuses makes \<^verbatim>\<open>convertToRegExp\<close>
  throw.
\<close>

definition addMember :: "engine \<Rightarrow> string \<Rightarrow> Member \<Rightarrow> Router \<Rightarrow> error + Router" where
  "addMember engine prefix m router =
     (if propertyName m = ''constructor'' then Inr router
      else
        (case route m of
           None \<Rightarrow> Inl TypeError
         | Some mp \<Rightarrow>
             if CHR '':'' \<in> set (snd mp) then
               (case convertToRegExp engine (prefix @ snd mp) of
                  Inl e \<Rightarrow> Inl e
                | Inr dynamicPathPattern \<Rightarrow>
                    Inr (router\<lparr>dynamicRoutes := dynamicRoutes router @
                      [\<lparr>DynamicRoute.routeMethod = fst mp, path = dynamicPathPattern,
                        handler = bound m, guards = memberGuards m\<rparr>]\<rparr>))
             else
               Inr (router\<lparr>staticRoutes := staticRoutes router @
                 [\<lparr>StaticRoute.routeMethod = fst mp, path = prefix @ snd mp,
                   handler = bound m, guards = memberGuards m\<rparr>]\<rparr>)))"

text \<open>The loop stops at the first throw; the routes pushed before it stay.\<close>

fun addMembers :: "engine \<Rightarrow> string \<Rightarrow> Member list \<Rightarrow> Router \<Rightarrow> error option \<times> Router" where
  "addMembers engine prefix [] router = (None, router)"
| "addMembers engine prefix (m # ms) router =
     (case addMember engine prefix m router of
        Inl e \<Rightarrow> (Some e, router)
      | Inr router' \<Rightarrow> addMembers engine prefix ms router')"

definition addRoute :: "engine \<Rightarrow> Controller \<Rightarrow> Router \<Rightarrow> error option \<times> Router" where
  "addRoute engine controller router =
     addMembers engine (controllerPath controller) (members controller) router"

subsection \<open>Runs\<close>

text \<open>
  What a part of a dispatch leaves behind: its result, the event after it, and the calls it
  made to callbacks, in order. The list of calls is a record kept by the model only.
\<close>

datatype call = CallLogger | CallMiddleware nat | CallGuard nat | CallHandler "arg list"

record 'r Run =
  result :: 'r
  event :: APIGatewayEvent
  calls :: "call list"

text \<open>
  \<^verbatim>\<open>await step; rest\<close> inside the \<^verbatim>\<open>try\<close>: if the step threw, the rest is skipped;
  otherwise the rest runs on the event the step left.
\<close>

definition andThen ::
  "error option Run \<Rightarrow> (APIGatewayEvent \<Rightarrow> (error + 'a) Run) \<Rightarrow> (error + 'a) Run" where
  "andThen r rest =
     (case result r of
        Some e \<Rightarrow> \<lparr>result = Inl e, event = event r, calls = calls r\<rparr>
      | None \<Rightarrow>
          (let r' = rest (event r)
           in \<lparr>result = result r', event = event r', calls = calls r @ calls r'\<rparr>))"

definition runLogger :: "Middleware option \<Rightarrow> APIGatewayEvent \<Rightarrow> error option Run" where
  "runLogger l ev =
     (case l of
        None \<Rightarrow> \<lparr>result = None, event = ev, calls = []\<rparr>
      | Some f \<Rightarrow> \<lparr>result = fst (f ev), event = snd (f ev), calls = [CallLogger]\<rparr>)"

text \<open>The loop over the middlewares; \<open>i\<close> is the position of the head of the list.\<close>

fun runMiddlewares :: "nat \<Rightarrow> Middleware list \<Rightarrow> APIGatewayEvent \<Rightarrow> error option Run" where
  "runMiddlewares i [] ev = \<lparr>result = None, event = ev, calls = []\<rparr>"
| "runMiddlewares i (f # fs) ev =
     (case fst (f ev) of
        Some e \<Rightarrow> \<lparr>result = Some e, event = snd (f ev), calls = [CallMiddleware i]\<rparr>
      | None \<Rightarrow>
          (let r = runMiddlewares (Suc i) fs (snd (f ev))
           in r\<lparr>calls := CallMiddleware i # calls r\<rparr>))"

text \<open>
  \<^verbatim>\<open>processGuards\<close>: a guard that throws ends the loop with what it threw, a guard that
  returns false ends it with a \<^verbatim>\<open>ForbiddenError\<close>.
\<close>

fun processGuards :: "nat \<Rightarrow> Guard list \<Rightarrow> APIGatewayEvent \<Rightarrow> error option Run" where
  "processGuards i [] ev = \<lparr>result = None, event = ev, calls = []\<rparr>"
| "processGuards i (g # gs) ev =
     (case fst (g ev) of
        Inl e \<Rightarrow> \<lparr>result = Some e, event = snd (g ev), calls = [CallGuard i]\<rparr>
      | Inr ok \<Rightarrow>
          if \<not> ok
          then \<lparr>result = Some (ForbiddenError None), event = snd (g ev), calls = [CallGuard i]\<rparr>
          else
            (let r = processGuards (Suc i) gs (snd (g ev))
             in r\<lparr>calls := CallGuard i # calls r\<rparr>))"

subsection \<open>Binding and invoking\<close>

text \<open>\<^verbatim>\<open>args[index] = v\<close> on an array that grows as needed; a hole reads \<^verbatim>\<open>undefined\<close>.\<close>

definition setIndex :: "arg list \<Rightarrow> nat \<Rightarrow> arg \<Rightarrow> arg list" where
  "setIndex args i v =
     (if i < length args then args[i := v]
      else args @ replicate (i - length args) Undefined @ [v])"

text \<open>The test \<^verbatim>\<open>param ? \<dots> : \<dots>\<close>: the key, when there is one and it is not empty.\<close>

definition key :: "ParamMeta \<Rightarrow> string option" where
  "key p = (case param p of None \<Rightarrow> None | Some k \<Rightarrow> if k = [] then None else Some k)"

text \<open>
  \<^verbatim>\<open>value[k]\<close> on a parsed body: it throws on \<^verbatim>\<open>null\<close> and gives the property \<open>k\<close> of an
  object. What a value inherits, and the positions and length of arrays and strings, are
  not modelled: they read \<^verbatim>\<open>undefined\<close> here.
\<close>

definition getProp :: "json \<Rightarrow> string \<Rightarrow> error + arg" where
  "getProp j k =
     (case j of
        JNull \<Rightarrow> Inl TypeError
      | JObj fs \<Rightarrow> (case map_of fs k of None \<Rightarrow> Inr Undefined | Some v \<Rightarrow> Inr (Json v))
      | _ \<Rightarrow> Inr Undefined)"

text \<open>
  \<^verbatim>\<open>k ? container?.[k] : container\<close>. A container is read by its own keys; what an object
  inherits (such as \<^verbatim>\<open>constructor\<close>) is not modelled and reads \<^verbatim>\<open>undefined\<close> here.
\<close>

definition fromContainer :: "dict option \<Rightarrow> string option \<Rightarrow> arg" where
  "fromContainer c k =
     (case k of
        None \<Rightarrow> (case c of None \<Rightarrow> Null | Some d \<Rightarrow> Dict d)
      | Some k' \<Rightarrow>
          (case c of
             None \<Rightarrow> Undefined
           | Some d \<Rightarrow> (case d k' of None \<Rightarrow> Undefined | Some v \<Rightarrow> Str v)))"

text \<open>One round of the \<^verbatim>\<open>switch\<close> on the type of a parameter.\<close>

definition bindArg :: "ParamMeta \<Rightarrow> APIGatewayEvent \<Rightarrow> error + arg" where
  "bindArg p ev =
     (if type p = ''body'' then
        (case APIGatewayEvent.body ev of
           None \<Rightarrow> Inr Undefined
         | Some text \<Rightarrow>
             if text = [] then Inr Undefined
             else
               (case JSON_parse text of
                  None \<Rightarrow> Inl SyntaxError
                | Some j \<Rightarrow> (case key p of None \<Rightarrow> Inr (Json j) | Some k \<Rightarrow> getProp j k)))
      else if type p = ''query'' then Inr (fromContainer (queryStringParameters ev) (key p))
      else if type p = ''params'' then Inr (fromContainer (pathParameters ev) (key p))
      else if type p = ''headers''
        then Inr (fromContainer (headers ev) (map_option toLowerCase (key p)))
      else Inr Undefined)"

fun bindArgs :: "ParamMeta list \<Rightarrow> APIGatewayEvent \<Rightarrow> arg list \<Rightarrow> error + arg list" where
  "bindArgs [] ev args = Inr args"
| "bindArgs (p # ps) ev args =
     (case bindArg p ev of
        Inl e \<Rightarrow> Inl e
      | Inr v \<Rightarrow> bindArgs ps ev (setIndex args (index p) v))"

text \<open>
  The promise an \<^verbatim>\<open>async\<close> function returns: resolved with a value, or rejected with
  what was thrown inside.
\<close>

datatype 'a promise = Resolved 'a | Rejected error

text \<open>The object a handler returns as body, as \<^verbatim>\<open>JSON.stringify\<close> sees it.\<close>

definition bodyJson :: "Body \<Rightarrow> json" where
  "bodyJson b =
     JObj ((''message'', JStr (Body.message b)) #
           (case data b of None \<Rightarrow> [] | Some d \<Rightarrow> [(''data'', d)]))"

definition invokeHandler :: "Handler \<Rightarrow> APIGatewayEvent \<Rightarrow> string Response promise Run" where
  "invokeHandler h ev =
     (case bindArgs (parameters h) ev [] of
        Inl e \<Rightarrow> \<lparr>result = Rejected e, event = ev, calls = []\<rparr>
      | Inr args \<Rightarrow>
          (let r = call h args ev
           in \<lparr>result =
                 (case fst r of
                    Inl e \<Rightarrow> Rejected e
                  | Inr res \<Rightarrow>
                      Resolved \<lparr>statusCode = statusCode res,
                                body = stringify (bodyJson (Response.body res))\<rparr>),
               event = snd r,
               calls = [CallHandler args]\<rparr>))"

subsection \<open>Dispatch\<close>

text \<open>
  The search of the dynamic routes. Its callback writes the path parameters into the event
  when it accepts a route, and \<^verbatim>\<open>find\<close> stops there.
\<close>

fun findDynamic ::
  "DynamicRoute list \<Rightarrow> string \<Rightarrow> APIGatewayEvent \<Rightarrow> DynamicRoute option \<times> APIGatewayEvent" where
  "findDynamic [] p ev = (None, ev)"
| "findDynamic (r # rs) p ev =
     (case match p (DynamicRoute.path r) of
        None \<Rightarrow> findDynamic rs p ev
      | Some m \<Rightarrow>
          if at m 0 = Some p
          then (Some r, ev\<lparr>pathParameters := Some (extractParams (DynamicRoute.path r) m)\<rparr>)
          else findDynamic rs p ev)"

text \<open>\<^verbatim>\<open>return promise\<close> inside the \<^verbatim>\<open>try\<close>: the promise leaves the block as it is.\<close>

definition returned :: "'a Run \<Rightarrow> (error + 'a) Run" where
  "returned r = \<lparr>result = Inr (result r), event = event r, calls = calls r\<rparr>"

text \<open>
  The second half of the \<^verbatim>\<open>try\<close> block: the static routes are searched for the method
  \<open>m\<close> and the path \<open>p\<close>, then the dynamic routes for the path; the route found has its guards run and
  its handler invoked, and without a route an \<^verbatim>\<open>UndefinedPathError\<close> is thrown.
\<close>

definition routeRequest ::
  "Router \<Rightarrow> string \<Rightarrow> string \<Rightarrow> APIGatewayEvent \<Rightarrow> (error + string Response promise) Run" where
  "routeRequest router m p ev =
     (case find (\<lambda>route. StaticRoute.routeMethod route = m \<and> StaticRoute.path route = p)
             (staticRoutes router) of
        Some staticRoute \<Rightarrow>
          andThen (processGuards 0 (StaticRoute.guards staticRoute) ev) (\<lambda>ev'.
            returned (invokeHandler (StaticRoute.handler staticRoute) ev'))
      | None \<Rightarrow>
          (let found = findDynamic (dynamicRoutes router) p ev in
           case fst found of
             Some dynamicRoute \<Rightarrow>
               andThen (processGuards 0 (DynamicRoute.guards dynamicRoute) (snd found)) (\<lambda>ev'.
                 returned (invokeHandler (DynamicRoute.handler dynamicRoute) ev'))
           | None \<Rightarrow> \<lparr>result = Inl UndefinedPathError, event = snd found, calls = []\<rparr>))"

text \<open>
  The \<^verbatim>\<open>try\<close> block of \<^verbatim>\<open>handleRequest\<close>. Method and path are read from the event
  before any callback runs. \<open>Inl\<close> is what was thrown inside the block, \<open>Inr\<close> what the
  block returned.
\<close>

definition tryBlock :: "Router \<Rightarrow> APIGatewayEvent \<Rightarrow> (error + string Response promise) Run" where
  "tryBlock router ev =
     (let m = httpMethod ev; p = APIGatewayEvent.path ev in
      andThen (runLogger (logger router) ev) (\<lambda>ev1.
      andThen (runMiddlewares 0 (middlewares router) ev1) (\<lambda>ev2.
        routeRequest router m p ev2)))"

text \<open>
  \<^verbatim>\<open>handleRequest\<close>: what is thrown inside the \<^verbatim>\<open>try\<close> block is given to
  \<^verbatim>\<open>errorHandler\<close>; a promise the block returned is the outcome as it is, rejected or not.
\<close>

definition handleRequest :: "Router \<Rightarrow> APIGatewayEvent \<Rightarrow> string Response promise Run" where
  "handleRequest router ev =
     (let r = tryBlock router ev in
      case result r of
        Inl error \<Rightarrow> \<lparr>result = Resolved (errorHandler error), event = event r, calls = calls r\<rparr>
      | Inr p \<Rightarrow> \<lparr>result = p, event = event r, calls = calls r\<rparr>)"

section \<open>Examples\<close>

subsection \<open>An engine for the examples\<close>

text \<open>
  The examples need the answers of the engine for the patterns they register. Those are
  sources that \<^verbatim>\<open>convertToRegExp\<close> builds from templates whose fixed text has no operator
  of the regular-expression language: a start anchor, then characters that stand for
  themselves and groups \<^verbatim>\<open>([^/]+)\<close>, then an end anchor. The engine below answers for these
  sources as JavaScript does. It has no object for any other source, where JavaScript has
  one for many; it stands for the engine of JavaScript in the examples only, which register
  sources of this form, and no general statement depends on it.
\<close>

datatype node = Lit char | Group

definition isOperator :: "char \<Rightarrow> bool" where
  "isOperator c = (c \<in> set ''^$.*+?()[]{}|'' \<or> c = CHR 0x5C)"

function parseNodes :: "string \<Rightarrow> node list option" where
  "parseNodes s =
     (if s = [] then Some []
      else if take 7 s = ''([^/]+)'' then map_option ((#) Group) (parseNodes (drop 7 s))
      else if isOperator (hd s) then None
      else map_option ((#) (Lit (hd s))) (parseNodes (tl s)))"
  by pat_completeness auto
termination
  by (relation "measure length") auto

definition parseSource :: "string \<Rightarrow> node list option" where
  "parseSource s =
     (case s of
        [] \<Rightarrow> None
      | c # cs \<Rightarrow>
          if c = CHR ''^'' \<and> cs \<noteq> [] \<and> last cs = CHR ''$'' then parseNodes (butlast cs) else None)"

text \<open>
  A group takes as many characters other than the slash as it can and gives them back one
  by one while the rest of the pattern fails, so the lengths are tried from the longest.
\<close>

fun tryLengths :: "(nat \<Rightarrow> 'a option) \<Rightarrow> nat \<Rightarrow> 'a option" where
  "tryLengths f 0 = None"
| "tryLengths f (Suc k) = (case f (Suc k) of Some r \<Rightarrow> Some r | None \<Rightarrow> tryLengths f k)"

fun matchNodes :: "node list \<Rightarrow> string \<Rightarrow> string list option" where
  "matchNodes [] s = (if s = [] then Some [] else None)"
| "matchNodes (Lit c # ns) s =
     (case s of [] \<Rightarrow> None | d # ds \<Rightarrow> if d = c then matchNodes ns ds else None)"
| "matchNodes (Group # ns) s =
     tryLengths (\<lambda>k. map_option ((#) (take k s)) (matchNodes ns (drop k s)))
       (length (takeWhile (\<lambda>d. d \<noteq> CHR ''/'') s))"

definition fragmentAnswers :: "string \<Rightarrow> string \<Rightarrow> string list option" where
  "fragmentAnswers s text =
     (case parseSource s of
        None \<Rightarrow> None
      | Some ns \<Rightarrow> map_option ((#) text) (matchNodes ns text))"

definition fragmentEngine :: engine where
  "fragmentEngine s = (case parseSource s of None \<Rightarrow> None | Some ns \<Rightarrow> Some (fragmentAnswers s))"

subsection \<open>Declarations and what the router reads of them\<close>

text \<open>
  The decorators \<^verbatim>\<open>Get\<close>, \<^verbatim>\<open>Post\<close>, \<^verbatim>\<open>Put\<close>, \<^verbatim>\<open>Delete\<close> and \<^verbatim>\<open>UseGuard\<close> attach their
  metadata to the target they are given, under the name of the method: that target is the
  prototype of the class for an instance method and the class itself for a static method.
  \<^verbatim>\<open>addRoute\<close> takes the names from the prototype and looks the metadata up on the class.
  So it finds the metadata that is on the class under the name of an instance method (put
  there with \<^verbatim>\<open>Reflect.defineMetadata\<close>, or by decorating a static method of that name), and
  nothing of what the decorators of the instance method itself attached.
\<close>

datatype site = OnClass | OnPrototype

definition memberAt ::
  "site \<Rightarrow> string \<Rightarrow> string \<times> string \<Rightarrow> Guard list \<Rightarrow> Handler \<Rightarrow> Member" where
  "memberAt target n r gs h =
     \<lparr>propertyName = n,
      route = (case target of OnClass \<Rightarrow> Some r | OnPrototype \<Rightarrow> None),
      memberGuards = (case target of OnClass \<Rightarrow> gs | OnPrototype \<Rightarrow> []),
      bound = h\<rparr>"

text \<open>
  The parameter decorators \<^verbatim>\<open>Body\<close>, \<^verbatim>\<open>Query\<close>, \<^verbatim>\<open>Params\<close> and \<^verbatim>\<open>Headers\<close> attach the
  descriptors of a method to the prototype, under the name of the method. The handler of a
  route is \<^verbatim>\<open>instance[methodName].bind(instance)\<close>: a new function, without a prototype of
  its own and with the name of the method prefixed by \<^verbatim>\<open>bound\<close>, and \<^verbatim>\<open>invokeHandler\<close> looks
  the descriptors up on that function under that name. It finds none, whatever was declared.
\<close>

definition boundMethod ::
  "ParamMeta list \<Rightarrow> (arg list \<Rightarrow> APIGatewayEvent \<Rightarrow> (error + Body Response) \<times> APIGatewayEvent)
     \<Rightarrow> Handler" where
  "boundMethod declared impl = \<lparr>parameters = [], call = impl\<rparr>"

text \<open>Every prototype has the property \<^verbatim>\<open>constructor\<close>; calling a class without \<^verbatim>\<open>new\<close> throws.\<close>

definition constructorMember :: Member where
  "constructorMember =
     \<lparr>propertyName = ''constructor'', route = None, memberGuards = [],
      bound = \<lparr>parameters = [], call = (\<lambda>args ev. (Inl TypeError, ev))\<rparr>\<rparr>"

subsection \<open>The methods of the README\<close>

text \<open>The text of a value inside a template literal.\<close>

fun jsonText :: "json \<Rightarrow> string" where
  "jsonText JNull = ''null''"
| "jsonText (JBool b) = (if b then ''true'' else ''false'')"
| "jsonText (JNum n) = n"
| "jsonText (JStr s) = s"
| "jsonText (JArr xs) = join '','' (map (\<lambda>x. if x = JNull then [] else jsonText x) xs)"
| "jsonText (JObj fs) = ''[object Object]''"

fun interpolate :: "arg \<Rightarrow> string" where
  "interpolate Undefined = ''undefined''"
| "interpolate Null = ''null''"
| "interpolate (Str s) = s"
| "interpolate (Dict d) = ''[object Object]''"
| "interpolate (Json j) = jsonText j"

text \<open>The first parameter of a method, \<^verbatim>\<open>undefined\<close> when no argument was passed.\<close>

definition firstArg :: "arg list \<Rightarrow> arg" where
  "firstArg args = (case args of [] \<Rightarrow> Undefined | a # _ \<Rightarrow> a)"

definition respond :: "int \<Rightarrow> string \<Rightarrow> APIGatewayEvent \<Rightarrow> (error + Body Response) \<times> APIGatewayEvent" where
  "respond sc text ev = (Inr \<lparr>statusCode = sc, body = \<lparr>Body.message = text, data = None\<rparr>\<rparr>, ev)"

text \<open>\<^verbatim>\<open>getItem(@Params('id') id)\<close>, which answers with the id.\<close>

definition getItem :: Handler where
  "getItem =
     boundMethod [\<lparr>index = 0, type = ''params'', param = Some ''id''\<rparr>]
       (\<lambda>args. respond 200 (''Item ID: '' @ interpolate (firstArg args)))"

definition getUsers :: Handler where
  "getUsers = boundMethod [] (\<lambda>args. respond 200 ''Get all users'')"

text \<open>\<^verbatim>\<open>createUser(@Body('name') name)\<close>, which answers with the name.\<close>

definition createUser :: Handler where
  "createUser =
     boundMethod [\<lparr>index = 0, type = ''body'', param = Some ''name''\<rparr>]
       (\<lambda>args. respond 201 (''User '' @ interpolate (firstArg args) @ '' created!''))"

definition secureEndpoint :: Handler where
  "secureEndpoint = boundMethod [] (\<lambda>args. respond 200 ''Access granted!'')"

definition isAuthenticated :: Guard where
  "isAuthenticated ev =
     (Inr (case headers ev of None \<Rightarrow> False | Some h \<Rightarrow> h ''authorization'' = Some ''valid-token''), ev)"

definition DefaultCloudWatchLogger :: Middleware where
  "DefaultCloudWatchLogger ev = (None, ev)"

subsection \<open>The controllers of the README, as declared\<close>

text \<open>
  The README declares instance methods and decorates them, so their route metadata and
  guards are on the prototype.
\<close>

definition ItemController :: Controller where
  "ItemController =
     \<lparr>controllerPath = ''/items'',
      members = [constructorMember,
        memberAt OnPrototype ''getItem'' (''GET'', ''/:id'') [] getItem]\<rparr>"

definition UserController :: Controller where
  "UserController =
     \<lparr>controllerPath = ''/users'',
      members = [constructorMember,
        memberAt OnPrototype ''getUsers'' (''GET'', ''/'') [] getUsers,
        memberAt OnPrototype ''createUser'' (''POST'', ''/'') [] createUser]\<rparr>"

definition SecureController :: Controller where
  "SecureController =
     \<lparr>controllerPath = ''/secure'',
      members = [constructorMember,
        memberAt OnPrototype ''secureEndpoint'' (''GET'', ''/'') [isAuthenticated] secureEndpoint]\<rparr>"

subsection \<open>Controllers with the route metadata on the class\<close>

text \<open>
  The same controllers with the route metadata and the guards on the class, where
  \<^verbatim>\<open>addRoute\<close> finds them, and a few more. The routers are those that \<^verbatim>\<open>addRoute\<close> builds
  from them.
\<close>

definition ItemRoutes :: Controller where
  "ItemRoutes =
     \<lparr>controllerPath = ''/items'',
      members = [constructorMember,
        memberAt OnClass ''getItem'' (''GET'', ''/:id'') [] getItem]\<rparr>"

definition UserRoutes :: Controller where
  "UserRoutes =
     \<lparr>controllerPath = ''/users'',
      members = [constructorMember,
        memberAt OnClass ''getUsers'' (''GET'', ''/'') [] getUsers,
        memberAt OnClass ''createUser'' (''POST'', ''/'') [] createUser]\<rparr>"

definition itemRouter :: Router where
  "itemRouter = snd (addRoute fragmentEngine ItemRoutes createRouter)"

definition userRouter :: Router where
  "userRouter = snd (addRoute fragmentEngine UserRoutes createRouter)"

text \<open>The double quote, for writing serialized bodies.\<close>

definition dq :: string where
  "dq = [CHR 0x22]"

text \<open>A request with a method and a path, no body, no headers and no query.\<close>

definition request :: "string \<Rightarrow> string \<Rightarrow> APIGatewayEvent" where
  "request m p =
     \<lparr>httpMethod = m, path = p, body = None, headers = Some Map.empty,
      queryStringParameters = None, pathParameters = None\<rparr>"

text \<open>
  A controller with a parameterized route declared before an exact one under the same
  prefix.
\<close>

definition listItems :: Handler where
  "listItems = boundMethod [] (\<lambda>args. respond 200 ''All items'')"

definition CatalogController :: Controller where
  "CatalogController =
     \<lparr>controllerPath = ''/items'',
      members = [constructorMember,
        memberAt OnClass ''getItem'' (''GET'', ''/:id'') [] getItem,
        memberAt OnClass ''listItems'' (''GET'', ''/list'') [] listItems]\<rparr>"

definition catalogRouter :: Router where
  "catalogRouter = snd (addRoute fragmentEngine CatalogController createRouter)"

text \<open>A route behind two guards, the second of which throws whenever it is asked.\<close>

definition failingGuard :: Guard where
  "failingGuard ev = (Inl (InternalServerError None), ev)"

definition guardedRouter :: Router where
  "guardedRouter =
     snd (addRoute fragmentEngine
       \<lparr>controllerPath = ''/secure'',
        members = [constructorMember,
          memberAt OnClass ''secureEndpoint'' (''GET'', ''/'') [isAuthenticated, failingGuard]
            secureEndpoint]\<rparr>
       createRouter)"

text \<open>A request to the guarded route that carries the token.\<close>

definition tokenRequest :: APIGatewayEvent where
  "tokenRequest =
     (request ''GET'' ''/secure/'')\<lparr>headers := Some [''authorization'' \<mapsto> ''valid-token'']\<rparr>"

text \<open>
  A router with the logger and three middlewares, the second of which rejects every
  request, and a router whose logger rejects every request.
\<close>

definition rejectingMiddleware :: Middleware where
  "rejectingMiddleware ev = (Some (UnauthorizedError None), ev)"

definition loggedRouter :: Router where
  "loggedRouter =
     use DefaultCloudWatchLogger (use rejectingMiddleware (use DefaultCloudWatchLogger
       (useLogger DefaultCloudWatchLogger itemRouter)))"

definition rejectingLoggerRouter :: Router where
  "rejectingLoggerRouter = use DefaultCloudWatchLogger (useLogger rejectingMiddleware itemRouter)"

definition quietRouter :: Router where
  "quietRouter = use DefaultCloudWatchLogger (useLogger DefaultCloudWatchLogger itemRouter)"

text \<open>A request with a body that is not JSON, for the route whose method declares a body.\<close>

definition brokenPost :: APIGatewayEvent where
  "brokenPost = (request ''POST'' ''/users/'')\<lparr>body := Some ''{bad''\<rparr>"


text \<open>A controller whose prefix holds the placeholder.\<close>

definition PostController :: Controller where
  "PostController =
     \<lparr>controllerPath = ''/users/:uid'',
      members = [constructorMember,
        memberAt OnClass ''getPosts'' (''GET'', ''/posts'') [] getUsers]\<rparr>"

definition postRouter :: Router where
  "postRouter = snd (addRoute fragmentEngine PostController createRouter)"

section \<open>Notions used in the statements\<close>

text \<open>A text in which no colon is followed by a letter or a digit.\<close>

fun keyFree :: "string \<Rightarrow> bool" where
  "keyFree [] = True"
| "keyFree (c # cs) = ((c = CHR '':'' \<longrightarrow> cs = [] \<or> \<not> isAlnum (hd cs)) \<and> keyFree cs)"

text \<open>
  The route that a request is dispatched to, if any, with the event as the search leaves
  it: the guards and the handler that \<^verbatim>\<open>routeRequest\<close> goes on with.
\<close>

definition matchedRoute ::
  "Router \<Rightarrow> string \<Rightarrow> string \<Rightarrow> APIGatewayEvent \<Rightarrow> (Guard list \<times> Handler \<times> APIGatewayEvent) option" where
  "matchedRoute router m p ev =
     (case find (\<lambda>route. StaticRoute.routeMethod route = m \<and> StaticRoute.path route = p)
             (staticRoutes router) of
        Some sr \<Rightarrow> Some (StaticRoute.guards sr, StaticRoute.handler sr, ev)
      | None \<Rightarrow>
          (case fst (findDynamic (dynamicRoutes router) p ev) of
             Some dr \<Rightarrow>
               Some (DynamicRoute.guards dr, DynamicRoute.handler dr,
                     snd (findDynamic (dynamicRoutes router) p ev))
           | None \<Rightarrow> None))"

text \<open>
  A callback that leaves the event it is given as it is.
\<close>

definition keepsEvent :: "(APIGatewayEvent \<Rightarrow> 'a \<times> APIGatewayEvent) \<Rightarrow> bool" where
  "keepsEvent f = (\<forall>ev. snd (f ev) = ev)"

text \<open>
  The first half of the \<^verbatim>\<open>try\<close> block on its own: the logger, then the middlewares.
\<close>

definition beforeRouting :: "Router \<Rightarrow> APIGatewayEvent \<Rightarrow> error option Run" where
  "beforeRouting router ev =
     (let l = runLogger (logger router) ev in
      case result l of
        Some e \<Rightarrow> l
      | None \<Rightarrow>
          (let m = runMiddlewares 0 (middlewares router) (event l)
           in m\<lparr>calls := calls l @ calls m\<rparr>))"

text \<open>The calls that belong to a route: those of its guards and of its handler.\<close>

fun isRouteCall :: "call \<Rightarrow> bool" where
  "isRouteCall (CallGuard i) = True"
| "isRouteCall (CallHandler args) = True"
| "isRouteCall c = False"

text \<open>
  The logger and the middlewares by their callbacks alone: the call of the logger if there is
  one, the event that the logger leaves when it returns, and the event that a list of
  middlewares leaves when each of them, given the event of the one before, returns.
\<close>

definition loggerCalls :: "Router \<Rightarrow> call list" where
  "loggerCalls router = (case logger router of None \<Rightarrow> [] | Some f \<Rightarrow> [CallLogger])"

definition afterLogger :: "Router \<Rightarrow> APIGatewayEvent \<Rightarrow> APIGatewayEvent option" where
  "afterLogger router ev =
     (case logger router of
        None \<Rightarrow> Some ev
      | Some f \<Rightarrow> (case fst (f ev) of None \<Rightarrow> Some (snd (f ev)) | Some e \<Rightarrow> None))"

fun passAll :: "Middleware list \<Rightarrow> APIGatewayEvent \<Rightarrow> APIGatewayEvent option" where
  "passAll [] ev = Some ev"
| "passAll (f # fs) ev = (case fst (f ev) of None \<Rightarrow> passAll fs (snd (f ev)) | Some e \<Rightarrow> None)"

section \<open>Evaluating the examples\<close>

lemmas router_defs =
  itemRouter_def userRouter_def catalogRouter_def guardedRouter_def loggedRouter_def
  rejectingLoggerRouter_def quietRouter_def postRouter_def
  addRoute_def addMember_def createRouter_def use_def useLogger_def
  ItemController_def UserController_def SecureController_def ItemRoutes_def UserRoutes_def
  CatalogController_def PostController_def constructorMember_def memberAt_def
  convertToRegExp_def newRegExp_def fragmentEngine_def parseSource_def isOperator_def
  isAlnum_def isDigit_def code_def

lemmas dispatch_defs =
  handleRequest_def tryBlock_def routeRequest_def andThen_def runLogger_def
  returned_def invokeHandler_def bindArg_def key_def fromContainer_def getProp_def setIndex_def
  errorHandler_def bodyJson_def quoteJSON_def quoteChar_def code_def
  fragmentAnswers_def parseSource_def isOperator_def at_def extractParams_def toString_def
  isLineTerminator_def isAlnum_def isDigit_def

lemmas example_defs =
  request_def getItem_def getUsers_def createUser_def listItems_def secureEndpoint_def
  boundMethod_def respond_def firstArg_def isAuthenticated_def failingGuard_def
  rejectingMiddleware_def DefaultCloudWatchLogger_def dq_def

section \<open>The shape of a dispatch\<close>

lemma handleRequest_unfold:
  "handleRequest router ev =
     (let b = beforeRouting router ev in
      case result b of
        Some e \<Rightarrow> \<lparr>result = Resolved (errorHandler e), event = event b, calls = calls b\<rparr>
      | None \<Rightarrow>
          (let r = routeRequest router (httpMethod ev) (APIGatewayEvent.path ev) (event b) in
           \<lparr>result = (case result r of Inl e \<Rightarrow> Resolved (errorHandler e) | Inr p \<Rightarrow> p),
            event = event r, calls = calls b @ calls r\<rparr>))"
  by (simp add: handleRequest_def tryBlock_def beforeRouting_def andThen_def Let_def
           split: option.splits sum.splits)

lemma routeRequest_unfold:
  "routeRequest router m p ev =
     (case matchedRoute router m p ev of
        None \<Rightarrow> \<lparr>result = Inl UndefinedPathError,
                 event = snd (findDynamic (dynamicRoutes router) p ev), calls = []\<rparr>
      | Some (gs, h, ev') \<Rightarrow>
          (let g = processGuards 0 gs ev' in
           case result g of
             Some e \<Rightarrow> \<lparr>result = Inl e, event = event g, calls = calls g\<rparr>
           | None \<Rightarrow>
               (let r = invokeHandler h (event g) in
                \<lparr>result = Inr (result r), event = event r, calls = calls g @ calls r\<rparr>)))"
  by (simp add: routeRequest_def matchedRoute_def andThen_def returned_def Let_def
           split: option.splits)

lemma upt_step: "[i..<Suc (i + n)] = i # [Suc i..<Suc (i + n)]"
  by (simp add: upt_conv_Cons del: upt_Suc)

lemma runMiddlewares_calls:
  "result (runMiddlewares i fs ev) = None \<Longrightarrow>
   calls (runMiddlewares i fs ev) = map CallMiddleware [i..<i + length fs]"
proof (induction fs arbitrary: i ev)
  case Nil
  show ?case by simp
next
  case (Cons f fs)
  then show ?case
    by (simp add: Let_def upt_step del: upt_Suc split: option.splits)
qed

lemma runMiddlewares_append:
  "result (runMiddlewares i pre ev) = None \<Longrightarrow>
   runMiddlewares i (pre @ post) ev =
     (let r = runMiddlewares i pre ev; r' = runMiddlewares (i + length pre) post (event r)
      in r'\<lparr>calls := calls r @ calls r'\<rparr>)"
proof (induction pre arbitrary: i ev)
  case Nil
  show ?case by simp
next
  case (Cons f fs)
  then show ?case
    by (auto simp: Let_def split: option.splits)
qed

lemma processGuards_calls:
  "result (processGuards i gs ev) = None \<Longrightarrow>
   calls (processGuards i gs ev) = map CallGuard [i..<i + length gs]"
proof (induction gs arbitrary: i ev)
  case Nil
  show ?case by simp
next
  case (Cons g gs)
  then show ?case
    by (simp add: Let_def upt_step del: upt_Suc split: sum.splits if_splits)
qed

lemma processGuards_append:
  "result (processGuards i pre ev) = None \<Longrightarrow>
   processGuards i (pre @ post) ev =
     (let r = processGuards i pre ev; r' = processGuards (i + length pre) post (event r)
      in r'\<lparr>calls := calls r @ calls r'\<rparr>)"
proof (induction pre arbitrary: i ev)
  case Nil
  show ?case by simp
next
  case (Cons g gs)
  then show ?case
    by (auto simp: Let_def split: sum.splits if_splits)
qed

lemma processGuards_route_calls: "list_all isRouteCall (calls (processGuards i gs ev))"
  by (induction gs arbitrary: i ev) (auto simp: Let_def split: sum.splits)

lemma invokeHandler_route_calls: "list_all isRouteCall (calls (invokeHandler h ev))"
  by (simp add: invokeHandler_def Let_def split: sum.splits)

lemma routeRequest_route_calls: "list_all isRouteCall (calls (routeRequest router m p ev))"
  using processGuards_route_calls invokeHandler_route_calls
  by (simp add: routeRequest_unfold Let_def split: option.splits prod.splits)

text \<open>The loops up to the callback that ends them.\<close>

lemma runMiddlewares_failing:
  assumes "result (runMiddlewares 0 pre ev) = None"
      and "fst (f (event (runMiddlewares 0 pre ev))) = Some e"
  shows "runMiddlewares 0 (pre @ f # post) ev =
           \<lparr>result = Some e, event = snd (f (event (runMiddlewares 0 pre ev))),
            calls = map CallMiddleware [0..<Suc (length pre)]\<rparr>"
  using assms runMiddlewares_calls [of 0 pre ev]
  by (simp add: runMiddlewares_append Let_def)

lemma processGuards_failing:
  assumes "result (processGuards 0 pre ev) = None"
      and "fst (g (event (processGuards 0 pre ev))) = Inl e
           \<or> (fst (g (event (processGuards 0 pre ev))) = Inr False \<and> e = ForbiddenError None)"
  shows "processGuards 0 (pre @ g # post) ev =
           \<lparr>result = Some e, event = snd (g (event (processGuards 0 pre ev))),
            calls = map CallGuard [0..<Suc (length pre)]\<rparr>"
  using assms processGuards_calls [of 0 pre ev]
  by (auto simp add: processGuards_append Let_def)

section \<open>Registering the controllers of the README\<close>

text \<open>
  The controllers of the README, declared as the README declares them, have no route metadata
  on the class: \<^verbatim>\<open>addRoute\<close> throws at their first method and leaves the router without a
  route, whatever the engine, and a router without routes answers every request that its
  logger and middlewares let pass with the \<^verbatim>\<open>UndefinedPathError\<close>.
\<close>

lemma declared_controllers_register_nothing:
  "addRoute engine ItemController createRouter = (Some TypeError, createRouter)"
  "addRoute engine UserController createRouter = (Some TypeError, createRouter)"
  "addRoute engine SecureController createRouter = (Some TypeError, createRouter)"
  by (simp_all add: addRoute_def addMember_def ItemController_def UserController_def
        SecureController_def constructorMember_def memberAt_def)

lemma no_routes_is_undefined_path:
  "handleRequest createRouter ev =
     \<lparr>result = Resolved (errorHandler UndefinedPathError), event = ev, calls = []\<rparr>"
  by (simp add: handleRequest_def tryBlock_def routeRequest_def andThen_def runLogger_def
        createRouter_def)

text \<open>The routers of the examples, written out.\<close>

lemma itemRouter_routes:
  "itemRouter = \<lparr>staticRoutes = [],
     dynamicRoutes = [\<lparr>DynamicRoute.routeMethod = ''GET'',
        path = RegExp ''^/items/([^/]+)$'' (fragmentAnswers ''^/items/([^/]+)$''),
        handler = getItem, guards = []\<rparr>],
     middlewares = [], logger = None\<rparr>"
  by (simp add: router_defs)

lemma userRouter_routes:
  "userRouter = \<lparr>staticRoutes =
      [\<lparr>StaticRoute.routeMethod = ''GET'', path = ''/users/'', handler = getUsers, guards = []\<rparr>,
       \<lparr>StaticRoute.routeMethod = ''POST'', path = ''/users/'', handler = createUser,
         guards = []\<rparr>],
     dynamicRoutes = [], middlewares = [], logger = None\<rparr>"
  by (simp add: router_defs)

lemma catalogRouter_routes:
  "catalogRouter =
     \<lparr>staticRoutes = [\<lparr>StaticRoute.routeMethod = ''GET'', path = ''/items/list'',
                        handler = listItems, guards = []\<rparr>],
      dynamicRoutes = [\<lparr>DynamicRoute.routeMethod = ''GET'',
         path = RegExp ''^/items/([^/]+)$'' (fragmentAnswers ''^/items/([^/]+)$''),
         handler = getItem, guards = []\<rparr>],
      middlewares = [], logger = None\<rparr>"
  by (simp add: router_defs)

lemma guardedRouter_routes:
  "guardedRouter =
     \<lparr>staticRoutes = [\<lparr>StaticRoute.routeMethod = ''GET'', path = ''/secure/'',
                        handler = secureEndpoint, guards = [isAuthenticated, failingGuard]\<rparr>],
      dynamicRoutes = [], middlewares = [], logger = None\<rparr>"
  by (simp add: router_defs)

section \<open>Dynamic lookup and the request method\<close>

text \<open>
  The search of the dynamic routes never reads the method of a route: with every method
  replaced by \<open>m\<close> it finds the route at the same place and leaves the same event.
\<close>

lemma findDynamic_ignores_routeMethod:
  "map_option (\<lambda>r. r\<lparr>DynamicRoute.routeMethod := m\<rparr>) (fst (findDynamic rs p ev))
     = fst (findDynamic (map (\<lambda>r. r\<lparr>DynamicRoute.routeMethod := m\<rparr>) rs) p ev)
   \<and> snd (findDynamic rs p ev)
     = snd (findDynamic (map (\<lambda>r. r\<lparr>DynamicRoute.routeMethod := m\<rparr>) rs) p ev)"
  by (induction rs) (auto split: option.splits)

text \<open>
  Claim C1: dynamic route lookup selects a route only if its pattern matches the whole
  path and its method equals the method of the request.

  The code does not do this. The callback of the search over the dynamic routes tests the
  pattern only (\<open>findDynamic_ignores_routeMethod\<close>), while the search over the static
  routes tests method and path. Take the item controller with its route metadata on the
  class, so that \<^verbatim>\<open>addRoute\<close> registers its one route \<^verbatim>\<open>GET /items/:id\<close>: a \<^verbatim>\<open>POST\<close> to
  \<^verbatim>\<open>/items/42\<close> selects that \<^verbatim>\<open>GET\<close> route, and its handler is called (without
  arguments, as every handler is) and answers with status 200.
\<close>

theorem dynamic_lookup_ignores_method:
  "addRoute fragmentEngine ItemRoutes createRouter = (None, itemRouter)
   \<and> map DynamicRoute.routeMethod (dynamicRoutes itemRouter) = [''GET'']
   \<and> map_option DynamicRoute.routeMethod
       (fst (findDynamic (dynamicRoutes itemRouter) ''/items/42'' (request ''POST'' ''/items/42'')))
       = Some ''GET''
   \<and> calls (handleRequest itemRouter (request ''POST'' ''/items/42'')) = [CallHandler []]
   \<and> result (handleRequest itemRouter (request ''POST'' ''/items/42'')) =
       Resolved \<lparr>statusCode = 200,
                 body = ''{'' @ dq @ ''message'' @ dq @ '':'' @ dq @ ''Item ID: undefined'' @ dq @ ''}''\<rparr>"
  by (simp add: router_defs dispatch_defs example_defs)

section \<open>Path parameters\<close>

text \<open>
  The text of a compiled pattern holds no key: the placeholders were replaced before the
  pattern was built, and neither the anchors nor the escaping of \<^verbatim>\<open>toString\<close> bring a colon
  before a letter or a digit.
\<close>

lemma matchKeys_keyFree: "keyFree s \<Longrightarrow> matchKeys s = []"
  by (induction s rule: matchKeys.induct) auto

lemma keyFree_append:
  "keyFree a \<Longrightarrow> keyFree b \<Longrightarrow>
   (a = [] \<or> last a \<noteq> CHR '':'' \<or> b = [] \<or> \<not> isAlnum (hd b)) \<Longrightarrow> keyFree (a @ b)"
  by (induction a) (auto simp: hd_append)

lemma not_alnum [simp]:
  "\<not> isAlnum (CHR 0x5C)" "\<not> isAlnum (CHR ''/'')" "\<not> isAlnum (CHR ''['')" "\<not> isAlnum (CHR '']'')"
  "\<not> isAlnum (CHR 0x0A)" "\<not> isAlnum (CHR 0x0D)" "\<not> isAlnum (CHR ''('')" "\<not> isAlnum (CHR ''$'')"
  "\<not> isAlnum (CHR '':'')"
  by (simp_all add: isAlnum_def isDigit_def code_def)

lemma replace_head:
  "cs = [] \<or> \<not> isAlnum (hd cs) \<Longrightarrow>
   replacePlaceholders cs = [] \<or> \<not> isAlnum (hd (replacePlaceholders cs))"
  by (cases cs) auto

lemma keyFree_replace: "keyFree (replacePlaceholders s)"
proof (induction s rule: replacePlaceholders.induct)
  case 1
  show ?case by simp
next
  case (2 c cs)
  show ?case
  proof (cases "c = CHR '':'' \<and> cs \<noteq> [] \<and> isAlnum (hd cs)")
    case True
    with 2 have "keyFree (replacePlaceholders (dropWhile isAlnum cs))" by simp
    with True show ?thesis by simp
  next
    case False
    with 2 have ih: "keyFree (replacePlaceholders cs)" by auto
    from False have "c = CHR '':'' \<Longrightarrow> cs = [] \<or> \<not> isAlnum (hd cs)" by auto
    from replace_head [OF this] ih False show ?thesis by auto
  qed
qed

lemma escape_head:
  "s = [] \<or> \<not> isAlnum (hd s) \<Longrightarrow>
   escapeSource ic s = [] \<or> \<not> isAlnum (hd (escapeSource ic s))"
  by (induction ic s rule: escapeSource.induct) (auto simp: isLineTerminator_def)

lemma keyFree_escape: "keyFree s \<Longrightarrow> keyFree (escapeSource ic s)"
proof (induction ic s rule: escapeSource.induct)
  case (1 ic)
  show ?case by simp
next
  case (2 ic c)
  then show ?case by (auto simp: isLineTerminator_def)
next
  case (3 ic c d ds)
  from "3.prems" have kd: "keyFree (d # ds)" and kds: "keyFree ds" by auto
  have hd_d: "c = CHR '':'' \<Longrightarrow> \<not> isAlnum d" using "3.prems" by auto
  have tl1: "escapeSource b (d # ds) = [] \<or> \<not> isAlnum (hd (escapeSource b (d # ds)))"
    if "c = CHR '':''" for b
    using escape_head [of "d # ds" b] hd_d [OF that] by simp
  have tl2: "d = CHR '':'' \<Longrightarrow> escapeSource ic ds = [] \<or> \<not> isAlnum (hd (escapeSource ic ds))"
    using escape_head [of ds ic] "3.prems" by auto
  show ?case
  proof (cases "c = CHR 0x5C")
    case True
    with 3 kd kds tl2 show ?thesis by (auto simp: isLineTerminator_def)
  next
    case False
    with 3 kd tl1 show ?thesis
      by (auto simp: isLineTerminator_def)
  qed
qed

lemma keyFree_toString:
  assumes "convertToRegExp engine t = Inr re"
  shows "keyFree (toString re)"
proof -
  let ?src = "''^'' @ replacePlaceholders t @ ''$''"
  from assms have s: "source re = ?src"
    by (auto simp: convertToRegExp_def newRegExp_def split: option.splits)
  have 1: "keyFree (replacePlaceholders t @ ''$'')"
    by (rule keyFree_append [OF keyFree_replace]) simp_all
  have 2: "keyFree ?src"
    by (rule keyFree_append [OF _ 1]) simp_all
  have 3: "keyFree (escapeSource False ?src)"
    by (rule keyFree_escape [OF 2])
  have 4: "keyFree (escapeSource False ?src @ ''/'')"
    by (rule keyFree_append [OF 3]) simp_all
  have "keyFree (''/'' @ escapeSource False ?src @ ''/'')"
    by (rule keyFree_append [OF _ 4]) simp_all
  then show ?thesis
    by (simp add: toString_def s)
qed

lemma extractParams_empty:
  "convertToRegExp engine t = Inr re \<Longrightarrow> extractParams re m = Map.empty"
  by (simp add: extractParams_def matchKeys_keyFree [OF keyFree_toString])

text \<open>
  Claim C2: for a registered template and a path that fits it, dispatch binds each
  placeholder name to the text in its place; \<^verbatim>\<open>GET /items/42\<close> against \<^verbatim>\<open>/items/:id\<close>
  binds \<open>id\<close> to \<open>42\<close> and the handler that echoes it answers \<^verbatim>\<open>Item ID: 42\<close>.

  The code does not do this. \<^verbatim>\<open>extractParams\<close> looks for the names in the text of the
  compiled pattern, where none is left (\<open>extractParams_empty\<close>), so the path parameters
  are the empty object for every route that \<^verbatim>\<open>addRoute\<close> compiles, whatever the engine.
  Besides, the handler of a route is a bound function, for which \<^verbatim>\<open>invokeHandler\<close> finds no
  parameter descriptors, so it is called without arguments. Take the item controller with
  its route metadata on the class, so that \<^verbatim>\<open>addRoute\<close> registers \<^verbatim>\<open>GET /items/:id\<close>: for
  \<^verbatim>\<open>GET /items/42\<close> the pattern matches with the group \<open>42\<close>, the path parameters are empty,
  the handler gets no argument and answers \<^verbatim>\<open>Item ID: undefined\<close>.
\<close>

theorem item_id_is_not_bound:
  "addRoute fragmentEngine ItemRoutes createRouter = (None, itemRouter)
   \<and> map (\<lambda>r. match ''/items/42'' (DynamicRoute.path r)) (dynamicRoutes itemRouter)
       = [Some [''/items/42'', ''42'']]
   \<and> pathParameters (event (handleRequest itemRouter (request ''GET'' ''/items/42''))) = Some Map.empty
   \<and> calls (handleRequest itemRouter (request ''GET'' ''/items/42'')) = [CallHandler []]
   \<and> result (handleRequest itemRouter (request ''GET'' ''/items/42'')) =
       Resolved \<lparr>statusCode = 200,
                 body = ''{'' @ dq @ ''message'' @ dq @ '':'' @ dq @ ''Item ID: undefined'' @ dq @ ''}''\<rparr>"
  by (simp add: router_defs dispatch_defs example_defs)

section \<open>A body that is not JSON\<close>

lemma bindArg_malformed:
  assumes "APIGatewayEvent.body ev = Some text" "text \<noteq> []" "JSON_parse text = None"
  shows "bindArg p ev = (if type p = ''body'' then Inl SyntaxError else bindArg p ev)"
    and "type p \<noteq> ''body'' \<Longrightarrow> \<exists>v. bindArg p ev = Inr v"
  using assms by (simp_all add: bindArg_def)

lemma bindArgs_malformed:
  assumes "APIGatewayEvent.body ev = Some text" "text \<noteq> []" "JSON_parse text = None"
      and "list_ex (\<lambda>p. type p = ''body'') ps"
  shows "bindArgs ps ev args = Inl SyntaxError"
  using assms(4)
proof (induction ps arbitrary: args)
  case Nil
  then show ?case by simp
next
  case (Cons p ps)
  show ?case
  proof (cases "type p = ''body''")
    case True
    then show ?thesis using bindArg_malformed(1) [OF assms(1-3), of p] by simp
  next
    case False
    then obtain v where "bindArg p ev = Inr v"
      using bindArg_malformed(2) [OF assms(1-3)] by blast
    with False Cons show ?thesis by simp
  qed
qed

text \<open>
  A handler whose descriptors \<^verbatim>\<open>invokeHandler\<close> does find, one of them for the body, invoked
  on a body that is present, not empty and not JSON: binding fails with the \<^verbatim>\<open>SyntaxError\<close>
  of the parser before the handler is called, the promise of the invocation is rejected with
  it, and the translation of that error has the status 500.
\<close>

lemma invokeHandler_malformed:
  assumes "list_ex (\<lambda>p. type p = ''body'') (parameters h)"
      and "APIGatewayEvent.body ev = Some text" and "text \<noteq> []" and "JSON_parse text = None"
  shows "invokeHandler h ev = \<lparr>result = Rejected SyntaxError, event = ev, calls = []\<rparr>
    \<and> statusCode (errorHandler SyntaxError) = 500"
  using bindArgs_malformed [OF assms(2-4) assms(1)]
  by (simp add: invokeHandler_def errorHandler_def SyntaxError_def)

text \<open>
  Claim C3: when the matched route has a body parameter and the body of the request is
  present but not well-formed, the parse failure is caught by the dispatcher and translated
  into a response with status 400; the pipeline does not crash and does not answer 500.

  The code does not do this. The method \<^verbatim>\<open>createUser\<close> of the README declares its parameter
  with \<^verbatim>\<open>@Body('name')\<close>, but the handler of its route is a bound function, for which
  \<^verbatim>\<open>invokeHandler\<close> finds no descriptor: the body is never parsed. Take the user controller
  with its route metadata on the class, so that \<^verbatim>\<open>addRoute\<close> registers \<^verbatim>\<open>POST /users/\<close>: a
  \<^verbatim>\<open>POST\<close> with the body \<^verbatim>\<open>{bad\<close>, which is not JSON, is answered by the handler, called
  without arguments, with status 201. And were the descriptor found, the \<^verbatim>\<open>SyntaxError\<close>
  would reject the promise that \<^verbatim>\<open>handleRequest\<close> returns without awaiting it, and its
  translation has the status 500 (\<open>invokeHandler_malformed\<close>): nothing in the code gives 400
  to a body that does not parse.
\<close>

theorem malformed_body_reaches_the_handler:
  "JSON_parse ''{bad'' = None
   \<and> addRoute fragmentEngine UserRoutes createRouter = (None, userRouter)
   \<and> handleRequest userRouter brokenPost =
       \<lparr>result = Resolved \<lparr>statusCode = 201,
           body = ''{'' @ dq @ ''message'' @ dq @ '':'' @ dq @ ''User undefined created!'' @ dq @ ''}''\<rparr>,
        event = brokenPost, calls = [CallHandler []]\<rparr>
   \<and> statusCode (errorHandler (BadRequestError None)) = 400"
proof -
  have p: "JSON_parse ''{bad'' = None"
    by (simp add: JSON_parse_def nextTok_def isDigit_def isWs_def code_def)
  have r: "addRoute fragmentEngine UserRoutes createRouter = (None, userRouter)"
    by (simp add: router_defs)
  have b: "httpMethod brokenPost = ''POST''" "APIGatewayEvent.path brokenPost = ''/users/''"
    by (simp_all add: brokenPost_def request_def)
  have h: "handleRequest userRouter brokenPost =
       \<lparr>result = Resolved \<lparr>statusCode = 201,
           body = ''{'' @ dq @ ''message'' @ dq @ '':'' @ dq @ ''User undefined created!'' @ dq @ ''}''\<rparr>,
        event = brokenPost, calls = [CallHandler []]\<rparr>"
    by (simp add: userRouter_routes b dispatch_defs example_defs)
  have e: "statusCode (errorHandler (BadRequestError None)) = 400"
    by (simp add: errorHandler_def BadRequestError_def)
  from p r h e show ?thesis by simp
qed

section \<open>Static routes first\<close>

text \<open>
  Claim C4: the static routes are searched before the dynamic ones: when a registered static
  route has the method and the exact path of the request, it is that route's handler that is
  invoked, also when a dynamic route whose pattern matches the path was registered earlier.

  When the search of the static routes finds \<open>sr\<close>, that is the matched route, whatever
  the event and the dynamic routes; the dispatch is the same with any other list \<open>ds\<close> of
  dynamic routes; and once the logger, the middlewares and the guards of \<open>sr\<close> have let
  the request pass, the outcome is that of invoking the handler of \<open>sr\<close>.
\<close>

theorem static_route_before_dynamic:
  fixes router :: Router and ev :: APIGatewayEvent
  assumes s: "find (\<lambda>route. StaticRoute.routeMethod route = httpMethod ev
                      \<and> StaticRoute.path route = APIGatewayEvent.path ev)
                (staticRoutes router) = Some sr"
  shows "matchedRoute router (httpMethod ev) (APIGatewayEvent.path ev) ev'
           = Some (StaticRoute.guards sr, StaticRoute.handler sr, ev')
    \<and> handleRequest (router\<lparr>dynamicRoutes := ds\<rparr>) ev = handleRequest router ev
    \<and> (result (beforeRouting router ev) = None
         \<and> result (processGuards 0 (StaticRoute.guards sr) (event (beforeRouting router ev))) = None \<longrightarrow>
         handleRequest router ev =
           (let g = processGuards 0 (StaticRoute.guards sr) (event (beforeRouting router ev));
                r = invokeHandler (StaticRoute.handler sr) (event g)
            in \<lparr>result = result r, event = event r,
                calls = calls (beforeRouting router ev) @ calls g @ calls r\<rparr>))"
proof (intro conjI impI)
  show m: "matchedRoute router (httpMethod ev) (APIGatewayEvent.path ev) ev'
      = Some (StaticRoute.guards sr, StaticRoute.handler sr, ev')" for ev'
    using s by (simp add: matchedRoute_def)
  have rr: "routeRequest (router\<lparr>dynamicRoutes := ds\<rparr>) (httpMethod ev) (APIGatewayEvent.path ev) e
      = routeRequest router (httpMethod ev) (APIGatewayEvent.path ev) e" for e
    using s by (simp add: routeRequest_def)
  have br: "beforeRouting (router\<lparr>dynamicRoutes := ds\<rparr>) ev = beforeRouting router ev"
    by (simp add: beforeRouting_def Let_def split: option.splits)
  show "handleRequest (router\<lparr>dynamicRoutes := ds\<rparr>) ev = handleRequest router ev"
    by (simp add: handleRequest_unfold br rr Let_def split: option.splits)
  assume "result (beforeRouting router ev) = None
         \<and> result (processGuards 0 (StaticRoute.guards sr) (event (beforeRouting router ev))) = None"
  then show "handleRequest router ev =
           (let g = processGuards 0 (StaticRoute.guards sr) (event (beforeRouting router ev));
                r = invokeHandler (StaticRoute.handler sr) (event g)
            in \<lparr>result = result r, event = event r,
                calls = calls (beforeRouting router ev) @ calls g @ calls r\<rparr>)"
    by (simp add: handleRequest_unfold routeRequest_unfold m Let_def)
qed

theorem static_route_before_dynamic_witness:
  "map (\<lambda>r. toString (DynamicRoute.path r)) (dynamicRoutes catalogRouter) = [''/^'' @ [CHR 0x5C] @ ''/items'' @ [CHR 0x5C] @ ''/([^/]+)$/'']
   \<and> map (\<lambda>r. match ''/items/list'' (DynamicRoute.path r)) (dynamicRoutes catalogRouter)
       = [Some [''/items/list'', ''list'']]
   \<and> handleRequest catalogRouter (request ''GET'' ''/items/list'') =
     \<lparr>result = Resolved \<lparr>statusCode = 200,
         body = ''{'' @ dq @ ''message'' @ dq @ '':'' @ dq @ ''All items'' @ dq @ ''}''\<rparr>,
      event = request ''GET'' ''/items/list'', calls = [CallHandler []]\<rparr>"
proof -
  let ?ev = "request ''GET'' ''/items/list''"
  let ?sr = "\<lparr>StaticRoute.routeMethod = ''GET'', path = ''/items/list'', handler = listItems,
              guards = []\<rparr>"
  note c = catalogRouter_routes
  have s: "find (\<lambda>route. StaticRoute.routeMethod route = httpMethod ?ev
                      \<and> StaticRoute.path route = APIGatewayEvent.path ?ev)
                (staticRoutes catalogRouter) = Some ?sr"
    by (simp add: c request_def)
  have p: "result (beforeRouting catalogRouter ?ev) = None
         \<and> result (processGuards 0 (StaticRoute.guards ?sr) (event (beforeRouting catalogRouter ?ev))) = None"
    by (simp add: c beforeRouting_def runLogger_def)
  have "handleRequest catalogRouter ?ev =
     \<lparr>result = Resolved \<lparr>statusCode = 200,
         body = ''{'' @ dq @ ''message'' @ dq @ '':'' @ dq @ ''All items'' @ dq @ ''}''\<rparr>,
      event = ?ev, calls = [CallHandler []]\<rparr>"
    using static_route_before_dynamic [OF s, of ?ev "dynamicRoutes catalogRouter", THEN conjunct2, THEN conjunct2, rule_format, OF p]
    by (simp add: c beforeRouting_def runLogger_def invokeHandler_def listItems_def boundMethod_def
          respond_def bodyJson_def quoteJSON_def quoteChar_def code_def dq_def)
  moreover have "map (\<lambda>r. match ''/items/list'' (DynamicRoute.path r)) (dynamicRoutes catalogRouter)
       = [Some [''/items/list'', ''list'']]"
    by (simp add: c fragmentAnswers_def parseSource_def isOperator_def isAlnum_def
          isDigit_def code_def)
  moreover have "map (\<lambda>r. toString (DynamicRoute.path r)) (dynamicRoutes catalogRouter) = [''/^'' @ [CHR 0x5C] @ ''/items'' @ [CHR 0x5C] @ ''/([^/]+)$/'']"
    by (simp add: c toString_def isLineTerminator_def)
  ultimately show ?thesis by simp
qed

section \<open>Guards\<close>

text \<open>
  Claim C5: the guards of the matched route run in registration order; the first guard that
  returns false ends the run: no later guard is evaluated, the handler is not invoked, and
  the response is the translation of one \<^verbatim>\<open>ForbiddenError\<close>, with status 403; a guard that
  throws has what it threw translated instead.

  The request has passed the logger and the middlewares and has the route with guards
  \<open>gs\<close> and handler \<open>h\<close>. If the guards of the prefix \<open>pre\<close> all returned true and the
  next one returns false or throws, the calls after the middlewares are exactly those of
  the guards up to that one. If all guards return true, all are called in order and the
  handler is invoked after them.
\<close>

theorem guards_in_order_first_refusal_ends:
  fixes router :: Router and ev :: APIGatewayEvent
  assumes b: "result (beforeRouting router ev) = None"
      and r: "matchedRoute router (httpMethod ev) (APIGatewayEvent.path ev)
                (event (beforeRouting router ev)) = Some (gs, h, ev')"
  shows "(\<forall>pre g post.
            gs = pre @ g # post \<and> result (processGuards 0 pre ev') = None
            \<and> fst (g (event (processGuards 0 pre ev'))) = Inr False \<longrightarrow>
            handleRequest router ev =
              \<lparr>result = Resolved (errorHandler (ForbiddenError None)),
               event = snd (g (event (processGuards 0 pre ev'))),
               calls = calls (beforeRouting router ev) @ map CallGuard [0..<Suc (length pre)]\<rparr>)
    \<and> (\<forall>pre g post e.
            gs = pre @ g # post \<and> result (processGuards 0 pre ev') = None
            \<and> fst (g (event (processGuards 0 pre ev'))) = Inl e \<longrightarrow>
            handleRequest router ev =
              \<lparr>result = Resolved (errorHandler e),
               event = snd (g (event (processGuards 0 pre ev'))),
               calls = calls (beforeRouting router ev) @ map CallGuard [0..<Suc (length pre)]\<rparr>)
    \<and> (result (processGuards 0 gs ev') = None \<longrightarrow>
            calls (handleRequest router ev) =
              calls (beforeRouting router ev) @ map CallGuard [0..<length gs]
                @ calls (invokeHandler h (event (processGuards 0 gs ev'))))
    \<and> statusCode (errorHandler (ForbiddenError None)) = 403
    \<and> name (ForbiddenError None) = ''ForbiddenError''"
proof (intro conjI allI impI)
  fix pre g post
  assume a: "gs = pre @ g # post \<and> result (processGuards 0 pre ev') = None
            \<and> fst (g (event (processGuards 0 pre ev'))) = Inr False"
  then have "processGuards 0 gs ev' =
      \<lparr>result = Some (ForbiddenError None), event = snd (g (event (processGuards 0 pre ev'))),
       calls = map CallGuard [0..<Suc (length pre)]\<rparr>"
    using processGuards_failing [of pre ev' g "ForbiddenError None" post] by simp
  then show "handleRequest router ev =
      \<lparr>result = Resolved (errorHandler (ForbiddenError None)),
       event = snd (g (event (processGuards 0 pre ev'))),
       calls = calls (beforeRouting router ev) @ map CallGuard [0..<Suc (length pre)]\<rparr>"
    using b r by (simp add: handleRequest_unfold routeRequest_unfold Let_def del: upt_Suc)
next
  fix pre g post e
  assume a: "gs = pre @ g # post \<and> result (processGuards 0 pre ev') = None
            \<and> fst (g (event (processGuards 0 pre ev'))) = Inl e"
  then have "processGuards 0 gs ev' =
      \<lparr>result = Some e, event = snd (g (event (processGuards 0 pre ev'))),
       calls = map CallGuard [0..<Suc (length pre)]\<rparr>"
    using processGuards_failing [of pre ev' g e post] by simp
  then show "handleRequest router ev =
      \<lparr>result = Resolved (errorHandler e),
       event = snd (g (event (processGuards 0 pre ev'))),
       calls = calls (beforeRouting router ev) @ map CallGuard [0..<Suc (length pre)]\<rparr>"
    using b r by (simp add: handleRequest_unfold routeRequest_unfold Let_def del: upt_Suc)
next
  assume a: "result (processGuards 0 gs ev') = None"
  then show "calls (handleRequest router ev) =
      calls (beforeRouting router ev) @ map CallGuard [0..<length gs]
        @ calls (invokeHandler h (event (processGuards 0 gs ev')))"
    using b r processGuards_calls [of 0 gs ev']
    by (simp add: handleRequest_unfold routeRequest_unfold Let_def)
next
  show "statusCode (errorHandler (ForbiddenError None)) = 403"
    by (simp add: errorHandler_def ForbiddenError_def)
next
  show "name (ForbiddenError None) = ''ForbiddenError''"
    by (simp add: ForbiddenError_def)
qed

theorem guards_in_order_first_refusal_ends_witness:
  "handleRequest guardedRouter (request ''GET'' ''/secure/'') =
     \<lparr>result = Resolved (errorHandler (ForbiddenError None)),
      event = request ''GET'' ''/secure/'',
      calls = [CallGuard 0]\<rparr>
   \<and> handleRequest guardedRouter tokenRequest =
     \<lparr>result = Resolved (errorHandler (InternalServerError None)),
      event = tokenRequest,
      calls = [CallGuard 0, CallGuard 1]\<rparr>"
proof -
  note g = guardedRouter_routes
  have route: "result (beforeRouting guardedRouter ev) = None"
    "APIGatewayEvent.path ev = ''/secure/'' \<Longrightarrow> httpMethod ev = ''GET'' \<Longrightarrow>
     matchedRoute guardedRouter (httpMethod ev) (APIGatewayEvent.path ev)
       (event (beforeRouting guardedRouter ev))
       = Some ([isAuthenticated, failingGuard], secureEndpoint, ev)"
    "calls (beforeRouting guardedRouter ev) = []" for ev
    by (simp_all add: g beforeRouting_def runLogger_def matchedRoute_def)
  let ?ev = "request ''GET'' ''/secure/''"
  have ev: "APIGatewayEvent.path ?ev = ''/secure/''" "httpMethod ?ev = ''GET''"
    "fst (isAuthenticated ?ev) = Inr False" "snd (isAuthenticated ?ev) = ?ev"
    by (simp_all add: request_def isAuthenticated_def)
  have tk: "APIGatewayEvent.path tokenRequest = ''/secure/''" "httpMethod tokenRequest = ''GET''"
    "isAuthenticated tokenRequest = (Inr True, tokenRequest)"
    "failingGuard tokenRequest = (Inl (InternalServerError None), tokenRequest)"
    by (simp_all add: tokenRequest_def request_def isAuthenticated_def failingGuard_def)
  have c1: "[isAuthenticated, failingGuard] = [] @ isAuthenticated # [failingGuard]
      \<and> result (processGuards 0 [] ?ev) = None
      \<and> fst (isAuthenticated (event (processGuards 0 [] ?ev))) = Inr False"
    by (simp add: ev)
  have c2: "[isAuthenticated, failingGuard] = [isAuthenticated] @ failingGuard # []
      \<and> result (processGuards 0 [isAuthenticated] tokenRequest) = None
      \<and> fst (failingGuard (event (processGuards 0 [isAuthenticated] tokenRequest)))
          = Inl (InternalServerError None)"
    by (simp add: tk)
  have 1: "handleRequest guardedRouter ?ev =
     \<lparr>result = Resolved (errorHandler (ForbiddenError None)), event = ?ev, calls = [CallGuard 0]\<rparr>"
    using guards_in_order_first_refusal_ends
      [OF route(1) route(2) [OF ev(1) ev(2)], THEN conjunct1, rule_format, OF c1]
    by (simp add: route(3) ev)
  have 2: "handleRequest guardedRouter tokenRequest =
     \<lparr>result = Resolved (errorHandler (InternalServerError None)), event = tokenRequest,
      calls = [CallGuard 0, CallGuard 1]\<rparr>"
    using guards_in_order_first_refusal_ends
      [OF route(1) route(2) [OF tk(1) tk(2)], THEN conjunct2, THEN conjunct1, rule_format, OF c2]
    by (simp add: route(3) tk)
  from 1 2 show ?thesis by simp
qed

section \<open>The logger and the middlewares\<close>

text \<open>The loop over the middlewares, told by what the middlewares themselves return.\<close>

lemma runMiddlewares_passAll:
  "passAll fs ev = Some ev' \<Longrightarrow>
   runMiddlewares i fs ev =
     \<lparr>result = None, event = ev', calls = map CallMiddleware [i..<i + length fs]\<rparr>"
proof (induction fs arbitrary: i ev)
  case Nil
  then show ?case by simp
next
  case (Cons f fs)
  then show ?case
    by (simp add: Let_def upt_step del: upt_Suc split: option.splits)
qed

lemma runMiddlewares_stops:
  assumes "passAll pre ev = Some ev'" and "fst (f ev') = Some e"
  shows "runMiddlewares 0 (pre @ f # post) ev =
           \<lparr>result = Some e, event = snd (f ev'),
            calls = map CallMiddleware [0..<Suc (length pre)]\<rparr>"
  using runMiddlewares_failing [of pre ev f e post] runMiddlewares_passAll [OF assms(1), of 0] assms(2)
  by simp

lemma runLogger_afterLogger:
  "afterLogger router ev = Some ev1 \<Longrightarrow>
   runLogger (logger router) ev = \<lparr>result = None, event = ev1, calls = loggerCalls router\<rparr>"
  by (auto simp: afterLogger_def runLogger_def loggerCalls_def split: option.splits)

text \<open>
  Claim C6: in every dispatch the logger, when set, runs first; the middlewares then run in
  registration order, each to its end, all of them before the route is looked for and before
  any guard; a failure of the logger or of a middleware ends the sequence and goes to the
  error translation.

  If the logger \<open>f\<close>, given the event of the request, throws \<open>e\<close>, the response is the
  translation of \<open>e\<close>, the event is as the logger left it, and the logger's is the only call.
  If the logger lets the request pass with the event \<open>ev1\<close>, the middlewares \<open>pre\<close> let it
  pass one after the other with the event \<open>ev'\<close>, and the next middleware \<open>f\<close>, given
  \<open>ev'\<close>, throws \<open>e\<close>, then the response is the translation of \<open>e\<close>, the event is as \<open>f\<close>
  left it, and the calls are the logger's and those of the middlewares up to \<open>f\<close>, in
  order. If all of them let the request pass, the last with the event \<open>ev2\<close>, then the
  dispatch goes on with the search of the route on \<open>ev2\<close>: the calls are the logger's,
  those of all middlewares in order, and then those of the route, which are calls of guards
  and of the handler only.
\<close>

theorem logger_and_middlewares_come_first:
  fixes router :: Router and ev :: APIGatewayEvent
  shows "(\<forall>f e. logger router = Some f \<and> fst (f ev) = Some e \<longrightarrow>
          handleRequest router ev =
            \<lparr>result = Resolved (errorHandler e), event = snd (f ev), calls = [CallLogger]\<rparr>)
    \<and> (\<forall>ev1 pre f post ev' e.
          afterLogger router ev = Some ev1 \<and> middlewares router = pre @ f # post
          \<and> passAll pre ev1 = Some ev' \<and> fst (f ev') = Some e \<longrightarrow>
          handleRequest router ev =
            \<lparr>result = Resolved (errorHandler e), event = snd (f ev'),
             calls = loggerCalls router @ map CallMiddleware [0..<Suc (length pre)]\<rparr>)
    \<and> (\<forall>ev1 ev2.
          afterLogger router ev = Some ev1 \<and> passAll (middlewares router) ev1 = Some ev2 \<longrightarrow>
          (let r = routeRequest router (httpMethod ev) (APIGatewayEvent.path ev) ev2 in
           handleRequest router ev =
             \<lparr>result = (case result r of Inl e \<Rightarrow> Resolved (errorHandler e) | Inr p \<Rightarrow> p),
              event = event r,
              calls = loggerCalls router @ map CallMiddleware [0..<length (middlewares router)]
                        @ calls r\<rparr>
           \<and> list_all isRouteCall (calls r)))"
proof (intro conjI allI impI)
  fix f e
  assume "logger router = Some f \<and> fst (f ev) = Some e"
  then show "handleRequest router ev =
      \<lparr>result = Resolved (errorHandler e), event = snd (f ev), calls = [CallLogger]\<rparr>"
    by (simp add: handleRequest_unfold beforeRouting_def runLogger_def)
next
  fix ev1 pre f post ev' e
  assume a: "afterLogger router ev = Some ev1 \<and> middlewares router = pre @ f # post
          \<and> passAll pre ev1 = Some ev' \<and> fst (f ev') = Some e"
  then have l: "runLogger (logger router) ev =
      \<lparr>result = None, event = ev1, calls = loggerCalls router\<rparr>"
    by (simp add: runLogger_afterLogger)
  from a have m: "runMiddlewares 0 (middlewares router) ev1 =
      \<lparr>result = Some e, event = snd (f ev'), calls = map CallMiddleware [0..<Suc (length pre)]\<rparr>"
    using runMiddlewares_stops [of pre ev1 ev' f e post] by simp
  show "handleRequest router ev =
      \<lparr>result = Resolved (errorHandler e), event = snd (f ev'),
       calls = loggerCalls router @ map CallMiddleware [0..<Suc (length pre)]\<rparr>"
    by (simp add: handleRequest_unfold beforeRouting_def l m Let_def del: upt_Suc)
next
  fix ev1 ev2
  assume a: "afterLogger router ev = Some ev1 \<and> passAll (middlewares router) ev1 = Some ev2"
  then have l: "runLogger (logger router) ev =
      \<lparr>result = None, event = ev1, calls = loggerCalls router\<rparr>"
    by (simp add: runLogger_afterLogger)
  from a have m: "runMiddlewares 0 (middlewares router) ev1 =
      \<lparr>result = None, event = ev2, calls = map CallMiddleware [0..<length (middlewares router)]\<rparr>"
    using runMiddlewares_passAll [of "middlewares router" ev1 ev2 0] by simp
  let ?r = "routeRequest router (httpMethod ev) (APIGatewayEvent.path ev) ev2"
  have "handleRequest router ev =
      \<lparr>result = (case result ?r of Inl e \<Rightarrow> Resolved (errorHandler e) | Inr p \<Rightarrow> p),
       event = event ?r,
       calls = loggerCalls router @ map CallMiddleware [0..<length (middlewares router)]
                 @ calls ?r\<rparr>"
    by (simp add: handleRequest_unfold beforeRouting_def l m Let_def)
  moreover have "list_all isRouteCall (calls ?r)"
    by (rule routeRequest_route_calls)
  ultimately show "let r = ?r in
      handleRequest router ev =
        \<lparr>result = (case result r of Inl e \<Rightarrow> Resolved (errorHandler e) | Inr p \<Rightarrow> p),
         event = event r,
         calls = loggerCalls router @ map CallMiddleware [0..<length (middlewares router)]
                   @ calls r\<rparr>
      \<and> list_all isRouteCall (calls r)"
    by (simp add: Let_def)
qed

theorem logger_and_middlewares_come_first_witness:
  "handleRequest rejectingLoggerRouter (request ''GET'' ''/items/42'') =
     \<lparr>result = Resolved (errorHandler (UnauthorizedError None)),
      event = request ''GET'' ''/items/42'',
      calls = [CallLogger]\<rparr>
   \<and> handleRequest loggedRouter (request ''GET'' ''/items/42'') =
     \<lparr>result = Resolved (errorHandler (UnauthorizedError None)),
      event = request ''GET'' ''/items/42'',
      calls = [CallLogger, CallMiddleware 0, CallMiddleware 1]\<rparr>
   \<and> calls (handleRequest quietRouter (request ''GET'' ''/items/42''))
       = [CallLogger, CallMiddleware 0, CallHandler []]
   \<and> statusCode (errorHandler (UnauthorizedError None)) = 401"
proof -
  let ?ev = "request ''GET'' ''/items/42''"
  have rl: "logger rejectingLoggerRouter = Some rejectingMiddleware
      \<and> fst (rejectingMiddleware ?ev) = Some (UnauthorizedError None)"
    by (simp add: rejectingLoggerRouter_def use_def useLogger_def rejectingMiddleware_def)
  have 1: "handleRequest rejectingLoggerRouter ?ev =
     \<lparr>result = Resolved (errorHandler (UnauthorizedError None)), event = ?ev,
      calls = [CallLogger]\<rparr>"
    using logger_and_middlewares_come_first
      [of rejectingLoggerRouter ?ev, THEN conjunct1, rule_format, OF rl]
    by (simp add: rejectingMiddleware_def)
  have lm: "afterLogger loggedRouter ?ev = Some ?ev
      \<and> middlewares loggedRouter = [DefaultCloudWatchLogger] @ rejectingMiddleware # [DefaultCloudWatchLogger]
      \<and> passAll [DefaultCloudWatchLogger] ?ev = Some ?ev
      \<and> fst (rejectingMiddleware ?ev) = Some (UnauthorizedError None)"
    by (simp add: loggedRouter_def itemRouter_routes use_def useLogger_def afterLogger_def
          DefaultCloudWatchLogger_def rejectingMiddleware_def)
  have lc: "loggerCalls loggedRouter = [CallLogger]"
    by (simp add: loggedRouter_def use_def useLogger_def loggerCalls_def)
  have 2: "handleRequest loggedRouter ?ev =
     \<lparr>result = Resolved (errorHandler (UnauthorizedError None)), event = ?ev,
      calls = [CallLogger, CallMiddleware 0, CallMiddleware 1]\<rparr>"
    using logger_and_middlewares_come_first
      [of loggedRouter ?ev, THEN conjunct2, THEN conjunct1, rule_format, OF lm]
    by (simp add: lc rejectingMiddleware_def)
  have q: "afterLogger quietRouter ?ev = Some ?ev
      \<and> passAll (middlewares quietRouter) ?ev = Some ?ev"
    by (simp add: quietRouter_def itemRouter_routes use_def useLogger_def afterLogger_def
          DefaultCloudWatchLogger_def)
  have qc: "loggerCalls quietRouter = [CallLogger]" "length (middlewares quietRouter) = 1"
    by (simp_all add: quietRouter_def itemRouter_routes use_def useLogger_def loggerCalls_def)
  have qr: "calls (routeRequest quietRouter (httpMethod ?ev) (APIGatewayEvent.path ?ev) ?ev)
      = [CallHandler []]"
    by (simp add: quietRouter_def itemRouter_routes use_def useLogger_def dispatch_defs example_defs)
  have 3: "calls (handleRequest quietRouter ?ev) = [CallLogger, CallMiddleware 0, CallHandler []]"
    using logger_and_middlewares_come_first
      [of quietRouter ?ev, THEN conjunct2, THEN conjunct2, rule_format, OF q]
    by (simp add: Let_def qc qr)
  have 4: "statusCode (errorHandler (UnauthorizedError None)) = 401"
    by (simp add: errorHandler_def UnauthorizedError_def)
  from 1 2 3 4 show ?thesis by simp
qed

section \<open>Requests without a route\<close>

lemma no_route_is_undefined_path:
  assumes "result (beforeRouting router ev) = None"
      and "matchedRoute router (httpMethod ev) (APIGatewayEvent.path ev)
             (event (beforeRouting router ev)) = None"
  shows "result (handleRequest router ev) = Resolved (errorHandler UndefinedPathError)
    \<and> calls (handleRequest router ev) = calls (beforeRouting router ev)
    \<and> statusCode (errorHandler UndefinedPathError) = 404
    \<and> name UndefinedPathError = ''UndefinedPathError''"
proof -
  have "result (handleRequest router ev) = Resolved (errorHandler UndefinedPathError)
      \<and> calls (handleRequest router ev) = calls (beforeRouting router ev)"
    using assms by (simp add: handleRequest_unfold routeRequest_unfold Let_def)
  moreover have "statusCode (errorHandler UndefinedPathError) = 404
      \<and> name UndefinedPathError = ''UndefinedPathError''"
    by (simp add: errorHandler_def UndefinedPathError_def)
  ultimately show ?thesis by simp
qed

text \<open>
  Claim C7: a request whose method and path match no registered route, static or dynamic,
  and whose logger and middlewares do not throw, gets the \<^verbatim>\<open>UndefinedPathError\<close> response
  with status 404, never another status.

  The code gives that response when no static route has the method and path and no dynamic
  pattern matches the path (\<open>no_route_is_undefined_path\<close>), but a dynamic route is matched
  on its pattern alone, as under claim C1. Take the item controller with its route metadata
  on the class, so that \<^verbatim>\<open>addRoute\<close> registers its one route \<^verbatim>\<open>GET /items/:id\<close>: a
  \<^verbatim>\<open>DELETE\<close> of \<^verbatim>\<open>/items/7\<close> matches no route by method and path, and is answered by the
  handler of the \<^verbatim>\<open>GET\<close> route with status 200.
\<close>

theorem other_method_is_not_undefined_path:
  "addRoute fragmentEngine ItemRoutes createRouter = (None, itemRouter)
   \<and> staticRoutes itemRouter = []
   \<and> map DynamicRoute.routeMethod (dynamicRoutes itemRouter) = [''GET'']
   \<and> calls (handleRequest itemRouter (request ''DELETE'' ''/items/7'')) = [CallHandler []]
   \<and> result (handleRequest itemRouter (request ''DELETE'' ''/items/7'')) =
       Resolved \<lparr>statusCode = 200,
                 body = ''{'' @ dq @ ''message'' @ dq @ '':'' @ dq @ ''Item ID: undefined'' @ dq @ ''}''\<rparr>
   \<and> statusCode (errorHandler UndefinedPathError) = 404"
  by (simp add: router_defs dispatch_defs example_defs UndefinedPathError_def)

section \<open>Registration\<close>

text \<open>
  The test of \<^verbatim>\<open>addRoute\<close> reads the path of the method only. A member whose own path has no
  colon becomes a static route with the text of prefix and path, whatever the prefix holds
  and whatever the engine; a member whose own path has a colon has prefix and path compiled
  together, and is registered when the engine accepts the pattern.
\<close>

lemma addMember_static:
  assumes "propertyName m \<noteq> ''constructor''" and "route m = Some (me, p)"
      and "CHR '':'' \<notin> set p"
  shows "addMember engine prefix m router =
     Inr (router\<lparr>staticRoutes := staticRoutes router @
       [\<lparr>StaticRoute.routeMethod = me, path = prefix @ p, handler = bound m,
         guards = memberGuards m\<rparr>]\<rparr>)"
  using assms by (simp add: addMember_def)

lemma addMember_dynamic:
  assumes "propertyName m \<noteq> ''constructor''" and "route m = Some (me, p)"
      and "CHR '':'' \<in> set p"
  shows "addMember engine prefix m router =
     (case convertToRegExp engine (prefix @ p) of
        Inl e \<Rightarrow> Inl e
      | Inr re \<Rightarrow>
          Inr (router\<lparr>dynamicRoutes := dynamicRoutes router @
            [\<lparr>DynamicRoute.routeMethod = me, path = re, handler = bound m,
              guards = memberGuards m\<rparr>]\<rparr>))"
  using assms by (simp add: addMember_def split: sum.splits)

text \<open>
  Claim C8: registration classifies a route as static exactly when its full path template,
  the prefix of the controller followed by the path of the method, contains no placeholder,
  and as dynamic, compiled by the path matcher, otherwise.

  The code does not do this. It tests the path of the method alone (\<open>addMember_static\<close>),
  although the branch for dynamic routes compiles prefix and path together. Take a
  controller with the prefix \<^verbatim>\<open>/users/:uid\<close> and a method \<^verbatim>\<open>GET /posts\<close>, the route metadata on
  the class: the full template \<^verbatim>\<open>/users/:uid/posts\<close> holds the placeholder \<^verbatim>\<open>:uid\<close>, and the
  route is registered as a static route with that text as its path. No dynamic route is
  registered, and \<^verbatim>\<open>GET /users/7/posts\<close> finds no route.
\<close>

theorem placeholder_in_prefix_is_registered_static:
  "matchKeys (controllerPath PostController @ ''/posts'') = ['':uid'']
   \<and> addRoute fragmentEngine PostController createRouter = (None, postRouter)
   \<and> dynamicRoutes postRouter = []
   \<and> map (\<lambda>r. (StaticRoute.routeMethod r, StaticRoute.path r)) (staticRoutes postRouter)
       = [(''GET'', ''/users/:uid/posts'')]
   \<and> handleRequest postRouter (request ''GET'' ''/users/7/posts'') =
       \<lparr>result = Resolved (errorHandler UndefinedPathError),
        event = request ''GET'' ''/users/7/posts'', calls = []\<rparr>
   \<and> statusCode (errorHandler UndefinedPathError) = 404"
  by (simp add: router_defs dispatch_defs example_defs UndefinedPathError_def)

section \<open>Headers\<close>




section \<open>What a dispatch changes in the event\<close>

lemma runMiddlewares_keeps:
  "list_all keepsEvent fs \<Longrightarrow> event (runMiddlewares i fs ev) = ev"
  by (induction fs arbitrary: i ev) (auto simp: keepsEvent_def Let_def split: option.splits)

lemma processGuards_keeps:
  "list_all keepsEvent gs \<Longrightarrow> event (processGuards i gs ev) = ev"
  by (induction gs arbitrary: i ev) (auto simp: keepsEvent_def Let_def split: sum.splits)

lemma invokeHandler_keeps:
  "(\<forall>args. keepsEvent (call h args)) \<Longrightarrow> event (invokeHandler h ev) = ev"
  by (simp add: invokeHandler_def keepsEvent_def Let_def split: sum.splits)

lemma beforeRouting_keeps:
  assumes "case logger router of None \<Rightarrow> True | Some f \<Rightarrow> keepsEvent f"
      and "list_all keepsEvent (middlewares router)"
  shows "event (beforeRouting router ev) = ev"
  using assms runMiddlewares_keeps [of "middlewares router" 0]
  by (simp add: beforeRouting_def runLogger_def keepsEvent_def Let_def split: option.splits)

lemma findDynamic_event:
  "snd (findDynamic rs p ev) = ev \<and> fst (findDynamic rs p ev) = None
   \<or> (\<exists>r pp. fst (findDynamic rs p ev) = Some r \<and> r \<in> set rs
         \<and> snd (findDynamic rs p ev) = ev\<lparr>pathParameters := pp\<rparr>)"
  by (induction rs) (auto split: option.splits)

lemma find_in_set: "find P xs = Some x \<Longrightarrow> x \<in> set xs"
  by (induction xs) (auto split: if_splits)

text \<open>
  Claim C10: when the logger, the middlewares, the guards and the handlers leave the request
  as it is, a dispatch changes at most the path parameters of the request, and only when a
  dynamic route is selected; method, path, body, headers and query parameters are as before.
\<close>

theorem dispatch_changes_path_parameters_only:
  fixes router :: Router and ev :: APIGatewayEvent
  assumes lg: "case logger router of None \<Rightarrow> True | Some f \<Rightarrow> keepsEvent f"
      and mw: "list_all keepsEvent (middlewares router)"
      and sr: "list_all (\<lambda>r. list_all keepsEvent (StaticRoute.guards r)
                  \<and> (\<forall>args. keepsEvent (call (StaticRoute.handler r) args))) (staticRoutes router)"
      and dr: "list_all (\<lambda>r. list_all keepsEvent (DynamicRoute.guards r)
                  \<and> (\<forall>args. keepsEvent (call (DynamicRoute.handler r) args))) (dynamicRoutes router)"
  shows "(\<exists>pp. event (handleRequest router ev) = ev\<lparr>pathParameters := pp\<rparr>)
    \<and> (event (handleRequest router ev) \<noteq> ev \<longrightarrow>
         find (\<lambda>route. StaticRoute.routeMethod route = httpMethod ev
                 \<and> StaticRoute.path route = APIGatewayEvent.path ev) (staticRoutes router) = None
         \<and> fst (findDynamic (dynamicRoutes router) (APIGatewayEvent.path ev) ev) \<noteq> None)
    \<and> httpMethod (event (handleRequest router ev)) = httpMethod ev
    \<and> APIGatewayEvent.path (event (handleRequest router ev)) = APIGatewayEvent.path ev
    \<and> APIGatewayEvent.body (event (handleRequest router ev)) = APIGatewayEvent.body ev
    \<and> headers (event (handleRequest router ev)) = headers ev
    \<and> queryStringParameters (event (handleRequest router ev)) = queryStringParameters ev"
proof -
  let ?P = "\<lambda>route. StaticRoute.routeMethod route = httpMethod ev
                 \<and> StaticRoute.path route = APIGatewayEvent.path ev"
  let ?fd = "findDynamic (dynamicRoutes router) (APIGatewayEvent.path ev) ev"
  have b: "event (beforeRouting router ev) = ev"
    using lg mw by (rule beforeRouting_keeps)
  have main: "event (handleRequest router ev) = ev
      \<or> (find ?P (staticRoutes router) = None \<and> fst ?fd \<noteq> None
          \<and> (\<exists>pp. event (handleRequest router ev) = ev\<lparr>pathParameters := pp\<rparr>))"
  proof (cases "result (beforeRouting router ev)")
    case (Some e)
    then show ?thesis by (simp add: handleRequest_unfold b)
  next
    case None
    note br = None
    show ?thesis
    proof (cases "find ?P (staticRoutes router)")
      case (Some s)
      then have "s \<in> set (staticRoutes router)" by (rule find_in_set)
      with sr have k: "list_all keepsEvent (StaticRoute.guards s)"
        "\<forall>args. keepsEvent (call (StaticRoute.handler s) args)"
        by (auto simp: list_all_iff)
      from Some have m: "matchedRoute router (httpMethod ev) (APIGatewayEvent.path ev) ev
          = Some (StaticRoute.guards s, StaticRoute.handler s, ev)"
        by (simp add: matchedRoute_def)
      have "event (handleRequest router ev) = ev"
        using br processGuards_keeps [OF k(1)] invokeHandler_keeps [OF k(2)]
        by (simp add: handleRequest_unfold routeRequest_unfold b m Let_def split: option.splits)
      then show ?thesis by simp
    next
      case None
      note st = None
      from findDynamic_event [of "dynamicRoutes router" "APIGatewayEvent.path ev" ev]
      show ?thesis
      proof
        assume a: "snd ?fd = ev \<and> fst ?fd = None"
        then have "matchedRoute router (httpMethod ev) (APIGatewayEvent.path ev) ev = None"
          using st by (simp add: matchedRoute_def)
        then have "event (handleRequest router ev) = ev"
          using br a by (simp add: handleRequest_unfold routeRequest_unfold b)
        then show ?thesis by simp
      next
        assume "\<exists>r pp. fst ?fd = Some r \<and> r \<in> set (dynamicRoutes router)
            \<and> snd ?fd = ev\<lparr>pathParameters := pp\<rparr>"
        then obtain r pp where r: "fst ?fd = Some r" "r \<in> set (dynamicRoutes router)"
          "snd ?fd = ev\<lparr>pathParameters := pp\<rparr>" by blast
        from r(2) dr have k: "list_all keepsEvent (DynamicRoute.guards r)"
          "\<forall>args. keepsEvent (call (DynamicRoute.handler r) args)"
          by (auto simp: list_all_iff)
        from st r have m: "matchedRoute router (httpMethod ev) (APIGatewayEvent.path ev) ev
            = Some (DynamicRoute.guards r, DynamicRoute.handler r, ev\<lparr>pathParameters := pp\<rparr>)"
          by (simp add: matchedRoute_def)
        have "event (handleRequest router ev) = ev\<lparr>pathParameters := pp\<rparr>"
          using br processGuards_keeps [OF k(1)] invokeHandler_keeps [OF k(2)]
          by (simp add: handleRequest_unfold routeRequest_unfold b m Let_def split: option.splits)
        with st r(1) show ?thesis by auto
      qed
    qed
  qed
  have ex: "\<exists>pp. event (handleRequest router ev) = ev\<lparr>pathParameters := pp\<rparr>"
  proof -
    have "ev = ev\<lparr>pathParameters := pathParameters ev\<rparr>" by simp
    with main show ?thesis by metis
  qed
  from ex obtain pp where pp: "event (handleRequest router ev) = ev\<lparr>pathParameters := pp\<rparr>" ..
  show ?thesis
    using main ex by (auto simp: pp)
qed

theorem dispatch_changes_path_parameters_only_witness:
  "event (handleRequest itemRouter (request ''GET'' ''/items/42''))
     = (request ''GET'' ''/items/42'')\<lparr>pathParameters := Some Map.empty\<rparr>
   \<and> httpMethod (event (handleRequest itemRouter (request ''GET'' ''/items/42''))) = ''GET''
   \<and> APIGatewayEvent.path (event (handleRequest itemRouter (request ''GET'' ''/items/42'')))
       = ''/items/42''
   \<and> headers (event (handleRequest itemRouter (request ''GET'' ''/items/42''))) = Some Map.empty"
proof -
  let ?ev = "request ''GET'' ''/items/42''"
  note i = itemRouter_routes
  have 1: "case logger itemRouter of None \<Rightarrow> True | Some f \<Rightarrow> keepsEvent f"
    and 2: "list_all keepsEvent (middlewares itemRouter)"
    and 3: "list_all (\<lambda>r. list_all keepsEvent (StaticRoute.guards r)
              \<and> (\<forall>args. keepsEvent (call (StaticRoute.handler r) args))) (staticRoutes itemRouter)"
    and 4: "list_all (\<lambda>r. list_all keepsEvent (DynamicRoute.guards r)
              \<and> (\<forall>args. keepsEvent (call (DynamicRoute.handler r) args))) (dynamicRoutes itemRouter)"
    by (simp_all add: i getItem_def boundMethod_def respond_def keepsEvent_def)
  have e: "event (handleRequest itemRouter ?ev) = ?ev\<lparr>pathParameters := Some Map.empty\<rparr>"
    by (simp add: router_defs dispatch_defs example_defs)
  from dispatch_changes_path_parameters_only [OF 1 2 3 4, of ?ev] e
  show ?thesis by (simp add: request_def)
qed

end
